theory Spec2Isabelle
  imports Complex_Main "HOL-Library.AList"
begin


section \<open>Python values, exceptions and string operations\<close>

text \<open>
  The judge works on duck-typed data: whatever \<^verbatim>\<open>json.loads\<close> returns is stored in the
  dataclasses without validation. A field that the source fills from decoded JSON is
  therefore a \<open>json\<close> value here. Python's int and float are both \<open>JNum\<close> over the
  reals (no rounding, no NaN); a dict is the list of its items in insertion order, so the
  keys of a \<open>JObj\<close> that stands for a Python dict are distinct. A \<open>string\<close> is a list
  of code points below 256.
\<close>

datatype json =
    JNull
  | JBool bool
  | JNum real
  | JStr string
  | JArr "json list"
  | JObj "(string \<times> json) list"

text \<open>The exceptions the modelled code can raise; \<open>ExternalError\<close> is any exception of an
  external call (network, file system), with its message.\<close>

datatype pyerr =
    AttributeError
  | TypeError
  | IndexError
  | ValueError
  | RuntimeError string
  | ExternalError string

definition bindE :: "'e + 'a \<Rightarrow> ('a \<Rightarrow> 'e + 'b) \<Rightarrow> 'e + 'b" where
  "bindE m f = (case m of Inl e \<Rightarrow> Inl e | Inr x \<Rightarrow> f x)"

text \<open>\<^verbatim>\<open>d.get(k, default)\<close>: only a dict has \<^verbatim>\<open>get\<close>.\<close>

fun py_get :: "json \<Rightarrow> string \<Rightarrow> json \<Rightarrow> pyerr + json" where
  "py_get (JObj kvs) k d = Inr (case map_of kvs k of Some v \<Rightarrow> v | None \<Rightarrow> d)"
| "py_get _ k d = Inl AttributeError"

text \<open>\<^verbatim>\<open>d.items()\<close>: only a dict has \<^verbatim>\<open>items\<close>.\<close>

fun py_items :: "json \<Rightarrow> pyerr + (string \<times> json) list" where
  "py_items (JObj kvs) = Inr kvs"
| "py_items _ = Inl AttributeError"

text \<open>The numeric value of a Python object in arithmetic: bool is a subclass of int.\<close>

fun py_num :: "json \<Rightarrow> real option" where
  "py_num (JNum x) = Some x"
| "py_num (JBool b) = Some (if b then 1 else 0)"
| "py_num _ = None"

text \<open>\<^verbatim>\<open>sum(...)\<close>: a left fold from 0 that raises at the first operand that is no number.\<close>

fun py_sum :: "real \<Rightarrow> json list \<Rightarrow> pyerr + real" where
  "py_sum acc [] = Inr acc"
| "py_sum acc (v # vs) =
     (case py_num v of None \<Rightarrow> Inl TypeError | Some x \<Rightarrow> py_sum (acc + x) vs)"

text \<open>\<^verbatim>\<open>xs[i]\<close> for a non-negative index.\<close>

definition py_index :: "'a list \<Rightarrow> nat \<Rightarrow> pyerr + 'a" where
  "py_index xs i = (if i < length xs then Inr (xs ! i) else Inl IndexError)"

text \<open>\<^verbatim>\<open>sub in s\<close> for strings.\<close>

fun contains :: "string \<Rightarrow> string \<Rightarrow> bool" where
  "contains sub [] = (sub = [])"
| "contains sub (c # cs) = (take (length sub) (c # cs) = sub \<or> contains sub cs)"

text \<open>\<^verbatim>\<open>s.split(sep)\<close> for a non-empty separator: the pieces between the non-overlapping
  occurrences of \<open>sep\<close>, found from the left. \<open>acc\<close> holds the current piece, reversed.\<close>

function py_split_from :: "string \<Rightarrow> string \<Rightarrow> string \<Rightarrow> string list" where
  "py_split_from sep acc [] = [rev acc]"
| "py_split_from sep acc (c # cs) =
     (if sep \<noteq> [] \<and> take (length sep) (c # cs) = sep
      then rev acc # py_split_from sep [] (drop (length sep) (c # cs))
      else py_split_from sep (c # acc) cs)"
  by pat_completeness auto
termination
  by (relation "measure (\<lambda>(sep, acc, s). length s)") (auto simp: neq_Nil_conv)

definition py_split :: "string \<Rightarrow> string \<Rightarrow> string list" where
  "py_split sep s = py_split_from sep [] s"

text \<open>The characters \<^verbatim>\<open>str.isspace\<close> accepts, among the code points below 256.\<close>

definition is_space :: "char \<Rightarrow> bool" where
  "is_space c = (of_char c \<in> {9, 10, 11, 12, 13, 28, 29, 30, 31, 32, 133, 160 :: nat})"

text \<open>\<^verbatim>\<open>s.strip()\<close>.\<close>

definition strip :: "string \<Rightarrow> string" where
  "strip s = rev (dropWhile is_space (rev (dropWhile is_space s)))"



text \<open>\<^verbatim>\<open>str(n)\<close> for a natural number.\<close>

definition digit_char :: "nat \<Rightarrow> char" where
  "digit_char d = ''0123456789'' ! d"

function str_nat :: "nat \<Rightarrow> string" where
  "str_nat n =
     (if n < 10 then [digit_char n] else str_nat (n div 10) @ [digit_char (n mod 10)])"
  by pat_completeness auto
termination
  by (relation "measure id") auto

declare str_nat.simps [simp del]

section \<open>Data model (judge/models.py)\<close>

text \<open>
  The dataclasses, field by field. Where two classes have a field of the same name, one of
  them gets a prefix: \<open>conv_id\<close> is \<^verbatim>\<open>Conversation.id\<close>, \<open>result_model_name\<close> is
  \<^verbatim>\<open>EvaluationResult.model_name\<close>, and \<open>rd_name\<close>, \<open>rd_weight\<close>, \<open>rd_description\<close> are
  the \<^verbatim>\<open>name\<close>, \<^verbatim>\<open>weight\<close> and \<^verbatim>\<open>description\<close> of a \<^verbatim>\<open>RubricDimension\<close>. A
  timestamp is a number.
\<close>

datatype JudgeModelProvider = OPENAI_COMPATIBLE | VLLM | OLLAMA | ANTHROPIC

record JudgeConfig =
  provider :: JudgeModelProvider
  model_name :: string
  base_url :: string
  api_key :: string
  temperature :: real
  max_tokens :: int
  timeout :: real

record Conversation =
  conv_id :: string
  category :: string
  timestamp :: int
  messages :: "json list"
  metadata :: json

record DimensionScore =
  score :: json
  weight :: json
  reasoning :: json
  evidence :: json

record ChainOfThought =
  context_analysis :: json
  response_analysis :: json
  legal_check :: json
  language_assessment :: json

record EvaluationFlags =
  critical_error :: json
  compliance_issue :: json
  escalation_needed :: json

record EvaluationResult =
  conversation_id :: string
  overall_score :: real
  dimension_scores :: "(string \<times> DimensionScore) list"
  chain_of_thought :: ChainOfThought
  summary :: json
  improvement_suggestions :: json
  flags :: EvaluationFlags
  result_model_name :: string
  rubric_version :: json
  processing_time_ms :: int
  raw_response :: "string option"

record RubricDimension =
  rd_name :: json
  rd_weight :: json
  rd_description :: json
  scoring_guidelines :: "(int \<times> json) list"

record Rubric =
  name :: json
  version :: json
  description :: json
  dimensions :: "(string \<times> RubricDimension) list"
  few_shot_examples :: json
  calibration_notes :: json

section \<open>The rubric loader (judge/rubrics/rubric_loader.py)\<close>

definition NL :: string where
  "NL = [CHR 0x0A]"

text \<open>\<^verbatim>\<open>DEFAULT_RUBRIC\<close>, field by field.\<close>

definition DEFAULT_RUBRIC :: Rubric where
  "DEFAULT_RUBRIC =
     \<lparr>name = JStr ''default_rubric'',
      version = JStr ''1.0.0'',
      description =
        JStr ''Standard evaluation rubric for German e-commerce customer support'',
      dimensions =
        [(''accuracy'',
          \<lparr>rd_name = JStr ''Accuracy'',
           rd_weight = JNum (25 / 100),
           rd_description = JStr ''Factual correctness of product/policy information'',
           scoring_guidelines =
             [(1, JStr ''Multiple factual errors, incorrect product/policy information''),
              (2, JStr ''Some factual errors or incomplete information''),
              (3, JStr ''Mostly accurate with minor issues''),
              (4, JStr ''Accurate information with good detail''),
              (5, JStr ''Completely accurate, comprehensive, and precise'')]\<rparr>),
         (''tone'',
          \<lparr>rd_name = JStr ''Tone'',
           rd_weight = JNum (20 / 100),
           rd_description = JStr ''Professional, helpful, empathetic communication style'',
           scoring_guidelines =
             [(1, JStr ''Rude, dismissive, or inappropriate tone''),
              (2, JStr ''Cold or impersonal, lacks empathy''),
              (3, JStr ''Neutral and professional but not warm''),
              (4, JStr ''Friendly, helpful, and empathetic''),
              (5, JStr ''Excellent rapport, perfectly balanced professionalism and warmth'')]\<rparr>),
         (''compliance'',
          \<lparr>rd_name = JStr ''Compliance'',
           rd_weight = JNum (20 / 100),
           rd_description =
             JStr ''Adherence to legal requirements (Widerrufsrecht, DSGVO, etc.)'',
           scoring_guidelines =
             [(1, JStr ''Violates legal requirements or provides illegal advice''),
              (2, JStr ''Missing required legal information''),
              (3, JStr ''Basic compliance but could be more thorough''),
              (4, JStr ''Good compliance with relevant regulations''),
              (5, JStr ''Excellent compliance, proactively addresses legal aspects'')]\<rparr>),
         (''completeness'',
          \<lparr>rd_name = JStr ''Completeness'',
           rd_weight = JNum (15 / 100),
           rd_description = JStr ''Full resolution of customer inquiry'',
           scoring_guidelines =
             [(1, JStr ''Does not address the customer's question''),
              (2, JStr ''Partially addresses the inquiry, missing key points''),
              (3, JStr ''Addresses main question but misses some details''),
              (4, JStr ''Thoroughly addresses the inquiry''),
              (5, JStr ''Comprehensive response anticipating follow-up questions'')]\<rparr>),
         (''language_quality'',
          \<lparr>rd_name = JStr ''Language Quality'',
           rd_weight = JNum (10 / 100),
           rd_description = JStr ''German grammar, spelling, and natural phrasing'',
           scoring_guidelines =
             [(1, JStr ''Many grammar/spelling errors, unnatural phrasing''),
              (2, JStr ''Noticeable errors affecting readability''),
              (3, JStr ''Minor errors, generally readable''),
              (4, JStr ''Good German with rare minor issues''),
              (5, JStr ''Flawless German, natural and professional'')]\<rparr>),
         (''efficiency'',
          \<lparr>rd_name = JStr ''Efficiency'',
           rd_weight = JNum (10 / 100),
           rd_description = JStr ''Concise responses without unnecessary verbosity'',
           scoring_guidelines =
             [(1, JStr ''Extremely verbose or too brief to be useful''),
              (2, JStr ''Unnecessarily long or missing important details''),
              (3, JStr ''Adequate length but could be more concise''),
              (4, JStr ''Well-balanced, appropriately detailed''),
              (5, JStr ''Perfectly concise, every word serves a purpose'')]\<rparr>)],
      few_shot_examples =
        JArr
          [JObj
             [(''conversation'',
               JArr
                 [JObj [(''role'', JStr ''customer''),
                        (''content'',
                         JStr (''Ich m'' @ [CHR 0xF6] @ ''chte meine Bestellung stornieren.''))],
                  JObj [(''role'', JStr ''chatbot''),
                        (''content'',
                         JStr (''Gerne helfe ich Ihnen bei der Stornierung. K'' @ [CHR 0xF6]
                           @ ''nnten Sie mir bitte Ihre Bestellnummer mitteilen? ''
                           @ ''Sie finden diese in Ihrer Bestellbest'' @ [CHR 0xE4]
                           @ ''tigung. Bitte beachten Sie, dass eine kostenlose Stornierung ''
                           @ ''innerhalb von 14 Tagen nach Bestellung gem'' @ [CHR 0xE4, CHR 0xDF]
                           @ '' Ihrem Widerrufsrecht m'' @ [CHR 0xF6] @ ''glich ist.''))]]),
              (''evaluation'',
               JObj
                 [(''overall_score'', JNum (85 / 100)),
                  (''summary'',
                   JStr (''Helpful response that correctly addresses the cancellation ''
                     @ ''request and mentions legal rights.''))])]],
      calibration_notes =
        JStr (NL @ ''## Calibration Guidelines'' @ NL
          @ ''- Score 3 should be the baseline for acceptable performance'' @ NL
          @ ''- Reserve 5 for truly exceptional responses'' @ NL
          @ ''- Consider context: complex inquiries may have lower completeness expectations''
          @ NL
          @ ''- German language quality is important but shouldn't dominate the score'' @ NL
          @ ''- Compliance issues should be flagged even for minor violations'' @ NL)\<rparr>"

text \<open>What the loader calls outside this repository: the file system
  (\<^verbatim>\<open>Path.exists\<close>, \<^verbatim>\<open>open\<close> with \<^verbatim>\<open>json.load\<close>, \<^verbatim>\<open>Path.stem\<close>,
  \<^verbatim>\<open>Path.glob("*.json")\<close>) and \<^verbatim>\<open>int(k)\<close> on a string (\<open>None\<close> is its
  \<^verbatim>\<open>ValueError\<close>).\<close>

record loader_env =
  path_exists :: "string \<Rightarrow> bool"
  read_json :: "string \<Rightarrow> pyerr + json"
  path_stem :: "string \<Rightarrow> string"
  glob_json :: "string \<Rightarrow> string list"
  py_int :: "string \<Rightarrow> int option"

text \<open>A \<^verbatim>\<open>RubricLoader\<close> object: its directory and its cache.\<close>

record RubricLoader =
  rubrics_dir :: string
  cache :: "string \<rightharpoonup> Rubric"


text \<open>The names a \<^verbatim>\<open>RubricLoader\<close> object answers to: the methods of the class body and the
  two attributes \<^verbatim>\<open>__init__\<close> sets. Any other attribute access raises
  \<^verbatim>\<open>AttributeError\<close>.\<close>

definition RubricLoader_attributes :: "string list" where
  "RubricLoader_attributes =
     [''__init__'', ''load'', ''_load_from_file'', ''list_available'', ''rubrics_dir'', ''_cache'']"

definition RubricLoader_getattr :: "string \<Rightarrow> pyerr + string" where
  "RubricLoader_getattr attr =
     (if attr \<in> set RubricLoader_attributes then Inr attr else Inl AttributeError)"

text \<open>The dict comprehension \<^verbatim>\<open>{int(k): v for k, v in ...items()}\<close>.\<close>

fun load_guidelines ::
  "loader_env \<Rightarrow> (string \<times> json) list \<Rightarrow> (int \<times> json) list \<Rightarrow> pyerr + (int \<times> json) list" where
  "load_guidelines env [] acc = Inr acc"
| "load_guidelines env ((k, v) # rest) acc =
     (case py_int env k of
        None \<Rightarrow> Inl ValueError
      | Some i \<Rightarrow> load_guidelines env rest (AList.update i v acc))"

text \<open>The loop of \<^verbatim>\<open>_load_from_file\<close> over \<^verbatim>\<open>data.get("dimensions", {}).items()\<close>.\<close>

fun load_dimensions ::
  "loader_env \<Rightarrow> (string \<times> json) list \<Rightarrow> (string \<times> RubricDimension) list
     \<Rightarrow> pyerr + (string \<times> RubricDimension) list" where
  "load_dimensions env [] acc = Inr acc"
| "load_dimensions env ((dim_name, dim_data) # rest) acc =
     bindE (py_get dim_data ''name'' (JStr dim_name)) (\<lambda>n.
     bindE (py_get dim_data ''weight'' (JNum (1 / 10))) (\<lambda>w.
     bindE (py_get dim_data ''description'' (JStr [])) (\<lambda>d.
     bindE (py_get dim_data ''scoring_guidelines'' (JObj [])) (\<lambda>g_data.
     bindE (py_items g_data) (\<lambda>g_items.
     bindE (load_guidelines env g_items []) (\<lambda>g.
       load_dimensions env rest
         (AList.update dim_name
            \<lparr>rd_name = n, rd_weight = w, rd_description = d, scoring_guidelines = g\<rparr>
            acc)))))))"

text \<open>\<^verbatim>\<open>_load_from_file\<close>.\<close>

definition load_from_file :: "loader_env \<Rightarrow> string \<Rightarrow> pyerr + Rubric" where
  "load_from_file env path =
     bindE (read_json env path) (\<lambda>data.
     bindE (py_get data ''dimensions'' (JObj [])) (\<lambda>d_data.
     bindE (py_items d_data) (\<lambda>entries.
     bindE (load_dimensions env entries []) (\<lambda>dims.
     bindE (py_get data ''name'' (JStr (path_stem env path))) (\<lambda>n.
     bindE (py_get data ''version'' (JStr ''1.0.0'')) (\<lambda>v.
     bindE (py_get data ''description'' (JStr [])) (\<lambda>d.
     bindE (py_get data ''few_shot_examples'' (JArr [])) (\<lambda>fs.
     bindE (py_get data ''calibration_notes'' (JStr [])) (\<lambda>cn.
       Inr \<lparr>name = n, version = v, description = d, dimensions = dims,
            few_shot_examples = fs, calibration_notes = cn\<rparr>)))))))))"

text \<open>\<^verbatim>\<open>rubrics_dir / f"{rubric_name}.json"\<close>, as a path string.\<close>

definition rubric_file :: "RubricLoader \<Rightarrow> string \<Rightarrow> string" where
  "rubric_file ld rubric_name = rubrics_dir ld @ ''/'' @ rubric_name @ ''.json''"

text \<open>\<^verbatim>\<open>load\<close>: returns the rubric and the loader with its cache as the call leaves it.
  The \<^verbatim>\<open>except Exception\<close> around \<^verbatim>\<open>_load_from_file\<close> falls through to the default
  rubric.\<close>

definition load :: "loader_env \<Rightarrow> RubricLoader \<Rightarrow> string \<Rightarrow> pyerr + Rubric \<times> RubricLoader" where
  "load env ld rubric_name =
     (case cache ld rubric_name of
        Some r \<Rightarrow> Inr (r, ld)
      | None \<Rightarrow>
          if rubric_name = ''default_rubric''
          then Inr (DEFAULT_RUBRIC, ld\<lparr>cache := (cache ld)(rubric_name \<mapsto> DEFAULT_RUBRIC)\<rparr>)
          else if path_exists env (rubric_file ld rubric_name)
          then (case load_from_file env (rubric_file ld rubric_name) of
                  Inr r \<Rightarrow> Inr (r, ld\<lparr>cache := (cache ld)(rubric_name \<mapsto> r)\<rparr>)
                | Inl e \<Rightarrow> Inr (DEFAULT_RUBRIC, ld))
          else Inr (DEFAULT_RUBRIC, ld))"

text \<open>\<^verbatim>\<open>list_available\<close>.\<close>

definition list_available :: "loader_env \<Rightarrow> RubricLoader \<Rightarrow> string list" where
  "list_available env ld =
     [''default_rubric'']
       @ (if path_exists env (rubrics_dir ld)
          then map (path_stem env) (glob_json env (rubrics_dir ld))
          else [])"




section \<open>The judge engine (judge/engine.py)\<close>

text \<open>What the engine calls outside this repository: the JSON decoder (\<open>Inl\<close> is the message
  of a \<^verbatim>\<open>JSONDecodeError\<close>), \<^verbatim>\<open>str(e)\<close> of a caught exception, the two HTTP
  calls, and the clock. The two prompt builders enter as functions that may raise; their
  text is not modelled.\<close>

record engine_env =
  loads :: "string \<Rightarrow> string + json"
  exc_str :: "pyerr \<Rightarrow> string"
  build_system_prompt :: "Rubric \<Rightarrow> pyerr + string"
  build_user_prompt :: "Rubric \<Rightarrow> Conversation \<Rightarrow> bool \<Rightarrow> pyerr + string"
  call_openai_compatible :: "JudgeConfig \<Rightarrow> string \<Rightarrow> string \<Rightarrow> pyerr + string"
  call_anthropic :: "JudgeConfig \<Rightarrow> string \<Rightarrow> string \<Rightarrow> pyerr + string"
  elapsed_ms :: "Conversation \<Rightarrow> int"

record JudgeEngine =
  config :: JudgeConfig
  rubric :: Rubric
  client :: bool

text \<open>\<^verbatim>\<open>_create_error_result\<close>.\<close>

definition create_error_result :: "string \<Rightarrow> string \<Rightarrow> EvaluationResult" where
  "create_error_result cid error =
     \<lparr>conversation_id = cid,
      overall_score = 0,
      dimension_scores = [],
      chain_of_thought =
        \<lparr>context_analysis = JStr (''Error: '' @ error),
         response_analysis = JStr [],
         legal_check = JStr [],
         language_assessment = JStr []\<rparr>,
      summary = JStr (''Evaluation failed: '' @ error),
      improvement_suggestions = JArr [],
      flags =
        \<lparr>critical_error = JBool True,
         compliance_issue = JBool False,
         escalation_needed = JBool False\<rparr>,
      result_model_name = [],
      rubric_version = JStr [],
      processing_time_ms = 0,
      raw_response = None\<rparr>"

text \<open>The first lines of \<^verbatim>\<open>_parse_response\<close>: the text inside a Markdown fence, or
  the response itself.\<close>

definition extract_json :: "string \<Rightarrow> pyerr + string" where
  "extract_json response =
     (if contains ''```json'' response
      then bindE (py_index (py_split ''```json'' response) 1)
             (\<lambda>p. py_index (py_split ''```'' p) 0)
      else if contains ''```'' response
      then bindE (py_index (py_split ''```'' response) 1)
             (\<lambda>p. py_index (py_split ''```'' p) 0)
      else Inr response)"

text \<open>The loop over \<^verbatim>\<open>data.get("dimension_scores", {}).items()\<close>; \<open>acc\<close> is the dict
  \<^verbatim>\<open>dimension_scores\<close> built so far. The weight is the rubric's, or 0.1 for a key the
  rubric does not have.\<close>

fun parse_dimension_scores ::
  "Rubric \<Rightarrow> (string \<times> json) list \<Rightarrow> (string \<times> DimensionScore) list
     \<Rightarrow> pyerr + (string \<times> DimensionScore) list" where
  "parse_dimension_scores rb [] acc = Inr acc"
| "parse_dimension_scores rb ((dim_name, dim_data) # rest) acc =
     (let w = (case map_of (dimensions rb) dim_name of
                 Some d \<Rightarrow> rd_weight d
               | None \<Rightarrow> JNum (1 / 10))
      in bindE (py_get dim_data ''score'' (JNum 3)) (\<lambda>sc.
         bindE (py_get dim_data ''reasoning'' (JStr [])) (\<lambda>re.
         bindE (py_get dim_data ''evidence'' (JArr [])) (\<lambda>ev.
           parse_dimension_scores rb rest
             (AList.update dim_name
                \<lparr>score = sc, weight = w, reasoning = re, evidence = ev\<rparr> acc)))))"

text \<open>\<^verbatim>\<open>sum((ds.score / 5.0) * ds.weight for ds in ...)\<close>.\<close>

fun weighted_sum :: "real \<Rightarrow> DimensionScore list \<Rightarrow> pyerr + real" where
  "weighted_sum acc [] = Inr acc"
| "weighted_sum acc (ds # rest) =
     (case py_num (score ds) of
        None \<Rightarrow> Inl TypeError
      | Some s \<Rightarrow>
          (case py_num (weight ds) of
             None \<Rightarrow> Inl TypeError
           | Some w \<Rightarrow> weighted_sum (acc + s / 5 * w) rest))"

text \<open>The weighted average that \<^verbatim>\<open>_parse_response\<close> and \<^verbatim>\<open>enhance_evaluation\<close>
  both write out: \<^verbatim>\<open>sum(...) / total_weight if total_weight > 0 else fallback\<close>. The
  quotient is evaluated only when the total weight is positive.\<close>

definition weighted_average :: "(string \<times> DimensionScore) list \<Rightarrow> real \<Rightarrow> pyerr + real" where
  "weighted_average dss fallback =
     bindE (py_sum 0 (map (\<lambda>kv. weight (snd kv)) dss)) (\<lambda>total_weight.
       if total_weight > 0
       then bindE (weighted_sum 0 (map snd dss)) (\<lambda>s. Inr (s / total_weight))
       else Inr fallback)"

text \<open>\<^verbatim>\<open>_parse_response\<close>, after the JSON text has been decoded to \<open>data\<close>.\<close>

definition parse_data :: "Rubric \<Rightarrow> json \<Rightarrow> string \<Rightarrow> string \<Rightarrow> pyerr + EvaluationResult" where
  "parse_data rb data response cid =
     bindE (py_get data ''dimension_scores'' (JObj [])) (\<lambda>ds_data.
     bindE (py_items ds_data) (\<lambda>entries.
     bindE (parse_dimension_scores rb entries []) (\<lambda>dss.
     bindE (if dss \<noteq> [] then weighted_average dss (1 / 2) else Inr (1 / 2)) (\<lambda>overall.
     bindE (py_get data ''chain_of_thought'' (JObj [])) (\<lambda>cot_data.
     bindE (py_get cot_data ''context_analysis'' (JStr [])) (\<lambda>ca.
     bindE (py_get cot_data ''response_analysis'' (JStr [])) (\<lambda>ra.
     bindE (py_get cot_data ''legal_check'' (JStr [])) (\<lambda>lc.
     bindE (py_get cot_data ''language_assessment'' (JStr [])) (\<lambda>la.
     bindE (py_get data ''flags'' (JObj [])) (\<lambda>flags_data.
     bindE (py_get flags_data ''critical_error'' (JBool False)) (\<lambda>ce.
     bindE (py_get flags_data ''compliance_issue'' (JBool False)) (\<lambda>ci.
     bindE (py_get flags_data ''escalation_needed'' (JBool False)) (\<lambda>en.
     bindE (py_get data ''summary'' (JStr [])) (\<lambda>su.
     bindE (py_get data ''improvement_suggestions'' (JArr [])) (\<lambda>imp.
       Inr \<lparr>conversation_id = cid,
            overall_score = overall,
            dimension_scores = dss,
            chain_of_thought =
              \<lparr>context_analysis = ca, response_analysis = ra,
               legal_check = lc, language_assessment = la\<rparr>,
            summary = su,
            improvement_suggestions = imp,
            flags = \<lparr>critical_error = ce, compliance_issue = ci, escalation_needed = en\<rparr>,
            result_model_name = [],
            rubric_version = JStr [],
            processing_time_ms = 0,
            raw_response = Some response\<rparr>)))))))))))))))"

text \<open>\<^verbatim>\<open>_parse_response\<close>: only a \<^verbatim>\<open>JSONDecodeError\<close> is caught here.\<close>

definition parse_response ::
  "(string \<Rightarrow> string + json) \<Rightarrow> Rubric \<Rightarrow> string \<Rightarrow> string \<Rightarrow> pyerr + EvaluationResult" where
  "parse_response lds rb response cid =
     bindE (extract_json response) (\<lambda>json_str.
       case lds (strip json_str) of
         Inl e \<Rightarrow> Inr (create_error_result cid (''JSON parse error: '' @ e))
       | Inr data \<Rightarrow> parse_data rb data response cid)"

text \<open>\<^verbatim>\<open>_call_llm\<close>.\<close>

definition call_llm :: "engine_env \<Rightarrow> JudgeEngine \<Rightarrow> string \<Rightarrow> string \<Rightarrow> pyerr + string" where
  "call_llm env eng system_prompt user_prompt =
     (if \<not> client eng
      then Inl (RuntimeError ''JudgeEngine must be used as async context manager'')
      else if provider (config eng) = ANTHROPIC
      then call_anthropic env (config eng) system_prompt user_prompt
      else call_openai_compatible env (config eng) system_prompt user_prompt)"

text \<open>\<^verbatim>\<open>evaluate\<close>: the prompts are built outside the \<^verbatim>\<open>try\<close>; every exception of
  the model call and of the parser is turned into an error result.\<close>

definition evaluate ::
  "engine_env \<Rightarrow> JudgeEngine \<Rightarrow> Conversation \<Rightarrow> bool \<Rightarrow> bool \<Rightarrow> pyerr + EvaluationResult" where
  "evaluate env eng conversation include_few_shot include_calibration =
     bindE (build_system_prompt env (rubric eng)) (\<lambda>system_prompt.
     bindE (build_user_prompt env (rubric eng) conversation include_few_shot) (\<lambda>user_prompt.
       let result =
             (case bindE (call_llm env eng system_prompt user_prompt)
                     (\<lambda>response.
                        parse_response (loads env) (rubric eng) response (conv_id conversation)) of
                Inl e \<Rightarrow> create_error_result (conv_id conversation) (exc_str env e)
              | Inr r \<Rightarrow> r)
       in Inr (result\<lparr>processing_time_ms := elapsed_ms env conversation,
                      result_model_name := model_name (config eng),
                      rubric_version := version (rubric eng)\<rparr>)))"

text \<open>The number a score or weight counts as in the sums (0 for what is no number; the
  sums raise there). Used to state the weighted average.\<close>

definition num_val :: "json \<Rightarrow> real" where
  "num_val v = (case py_num v of Some x \<Rightarrow> x | None \<Rightarrow> 0)"

text \<open>The \<^verbatim>\<open>DimensionScore\<close> the parser builds for the entry \<open>dim_name\<close> with the flds
  \<open>flds\<close>.\<close>

definition parsed_dimension :: "Rubric \<Rightarrow> string \<Rightarrow> (string \<times> json) list \<Rightarrow> DimensionScore" where
  "parsed_dimension rb dim_name flds =
     \<lparr>score = (case map_of flds ''score'' of Some v \<Rightarrow> v | None \<Rightarrow> JNum 3),
      weight = (case map_of (dimensions rb) dim_name of
                  Some d \<Rightarrow> rd_weight d
                | None \<Rightarrow> JNum (1 / 10)),
      reasoning = (case map_of flds ''reasoning'' of Some v \<Rightarrow> v | None \<Rightarrow> JStr []),
      evidence = (case map_of flds ''evidence'' of Some v \<Rightarrow> v | None \<Rightarrow> JArr [])\<rparr>"




section \<open>LanguageTool integration (judge/languagetool.py)\<close>













section \<open>Meta-evaluation (backend/app/services/meta_evaluation_service.py)\<close>

record CorrelationMetrics =
  pearson_r :: real
  spearman_rho :: real
  kendall_tau :: real
  mean_absolute_error :: real
  root_mean_squared_error :: real
  cohen_kappa :: real
  sample_size :: nat

record MetaEvaluationResponse =
  overall_correlation :: CorrelationMetrics
  dimension_correlations :: "(string \<times> CorrelationMetrics) list"
  calibration_needed :: bool
  recommendations :: "string list"
  last_calculated :: int

text \<open>What the service calls outside this repository: the statistics of scipy, sklearn and
  numpy on arrays made of the given values (each may raise), \<^verbatim>\<open>round(float(x), 4)\<close>, the
  format \<^verbatim>\<open>{x:.2f}\<close> and \<^verbatim>\<open>datetime.utcnow()\<close>.\<close>

record stats_lib =
  pearsonr :: "json list \<Rightarrow> json list \<Rightarrow> pyerr + real"
  spearmanr :: "json list \<Rightarrow> json list \<Rightarrow> pyerr + real"
  kendalltau :: "json list \<Rightarrow> json list \<Rightarrow> pyerr + real"
  sk_mean_absolute_error :: "json list \<Rightarrow> json list \<Rightarrow> pyerr + real"
  sk_mean_squared_error :: "json list \<Rightarrow> json list \<Rightarrow> pyerr + real"
  digitize :: "json list \<Rightarrow> real list \<Rightarrow> pyerr + nat list"
  cohen_kappa_score :: "nat list \<Rightarrow> nat list \<Rightarrow> pyerr + real"
  round4 :: "real \<Rightarrow> real"
  fmt_2f :: "real \<Rightarrow> string"
  utcnow :: int

text \<open>A row of the join of evaluations with their human annotations, and the pair
  \<^verbatim>\<open>_get_score_pairs\<close> makes of it.\<close>

record score_row =
  row_id :: string
  row_overall_score :: real
  row_dimension_scores :: json
  row_human_overall :: real
  row_human_dimensions :: json

record score_pair =
  evaluation_id :: string
  judge_overall :: real
  human_overall :: real
  judge_dimensions :: json
  human_dimensions :: json

definition get_score_pairs :: "score_row list \<Rightarrow> score_pair list" where
  "get_score_pairs rows =
     map (\<lambda>row. \<lparr>evaluation_id = row_id row,
                  judge_overall = row_overall_score row,
                  human_overall = row_human_overall row,
                  judge_dimensions = row_dimension_scores row,
                  human_dimensions = row_human_dimensions row\<rparr>) rows"

definition zero_metrics :: "nat \<Rightarrow> CorrelationMetrics" where
  "zero_metrics n =
     \<lparr>pearson_r = 0, spearman_rho = 0, kendall_tau = 0, mean_absolute_error = 0,
      root_mean_squared_error = 0, cohen_kappa = 0, sample_size = n\<rparr>"

text \<open>\<^verbatim>\<open>_calculate_correlation_metrics\<close>.\<close>

definition calculate_correlation_metrics ::
  "stats_lib \<Rightarrow> json list \<Rightarrow> json list \<Rightarrow> pyerr + CorrelationMetrics" where
  "calculate_correlation_metrics lib judge_scores human_scores =
     (let n = length judge_scores in
      if n < 2 then Inr (zero_metrics n)
      else
        bindE (pearsonr lib judge_scores human_scores) (\<lambda>r.
        bindE (spearmanr lib judge_scores human_scores) (\<lambda>rho.
        bindE (kendalltau lib judge_scores human_scores) (\<lambda>tau.
        bindE (sk_mean_absolute_error lib human_scores judge_scores) (\<lambda>mae.
        bindE (sk_mean_squared_error lib human_scores judge_scores) (\<lambda>mse.
        bindE (digitize lib judge_scores [3, 5, 7, 9]) (\<lambda>judge_bins.
        bindE (digitize lib human_scores [3, 5, 7, 9]) (\<lambda>human_bins.
        bindE (cohen_kappa_score lib human_bins judge_bins) (\<lambda>kappa.
          Inr \<lparr>pearson_r = round4 lib r,
               spearman_rho = round4 lib rho,
               kendall_tau = round4 lib tau,
               mean_absolute_error = round4 lib mae,
               root_mean_squared_error = round4 lib (sqrt mse),
               cohen_kappa = round4 lib kappa,
               sample_size = n\<rparr>)))))))))"

text \<open>The inner loop of \<^verbatim>\<open>_calculate_dimension_correlations\<close> over the keys of one pair's
  judge dimensions; \<open>acc\<close> maps a dimension key to its judge and human score lists.\<close>

fun collect_pair_scores ::
  "(string \<times> json) list \<Rightarrow> json \<Rightarrow> (string \<times> json list \<times> json list) list
     \<Rightarrow> pyerr + (string \<times> json list \<times> json list) list" where
  "collect_pair_scores [] human_dims acc = Inr acc"
| "collect_pair_scores ((dim_key, judge_dim) # rest) human_dims acc =
     (let acc1 = (case map_of acc dim_key of
                    None \<Rightarrow> AList.update dim_key ([], []) acc
                  | Some _ \<Rightarrow> acc)
      in bindE (py_get judge_dim ''score'' JNull) (\<lambda>judge_score.
         bindE (py_get human_dims dim_key JNull) (\<lambda>human_score.
           collect_pair_scores rest human_dims
             (if judge_score \<noteq> JNull \<and> human_score \<noteq> JNull
              then (case map_of acc1 dim_key of
                      Some (js, hs) \<Rightarrow>
                        AList.update dim_key (js @ [judge_score], hs @ [human_score]) acc1
                    | None \<Rightarrow> acc1)
              else acc1))))"

text \<open>The outer loop over the pairs.\<close>

fun collect_scores ::
  "score_pair list \<Rightarrow> (string \<times> json list \<times> json list) list
     \<Rightarrow> pyerr + (string \<times> json list \<times> json list) list" where
  "collect_scores [] acc = Inr acc"
| "collect_scores (pair # rest) acc =
     bindE (py_items (judge_dimensions pair)) (\<lambda>judge_items.
     bindE (collect_pair_scores judge_items (human_dimensions pair) acc) (\<lambda>acc1.
       collect_scores rest acc1))"

text \<open>The second loop: the metrics of every dimension with at least 5 score pairs.\<close>

fun correlate_dimensions ::
  "stats_lib \<Rightarrow> (string \<times> json list \<times> json list) list \<Rightarrow> (string \<times> CorrelationMetrics) list
     \<Rightarrow> pyerr + (string \<times> CorrelationMetrics) list" where
  "correlate_dimensions lib [] acc = Inr acc"
| "correlate_dimensions lib ((dim_key, js, hs) # rest) acc =
     (if length js \<ge> 5
      then bindE (calculate_correlation_metrics lib js hs) (\<lambda>m.
             correlate_dimensions lib rest (AList.update dim_key m acc))
      else correlate_dimensions lib rest acc)"

text \<open>\<^verbatim>\<open>_calculate_dimension_correlations\<close>.\<close>

definition calculate_dimension_correlations ::
  "stats_lib \<Rightarrow> score_pair list \<Rightarrow> pyerr + (string \<times> CorrelationMetrics) list" where
  "calculate_dimension_correlations lib pairs =
     bindE (collect_scores pairs []) (\<lambda>dimension_scores.
       correlate_dimensions lib dimension_scores [])"

text \<open>The loop of \<^verbatim>\<open>_check_calibration_needed\<close> over the dimensions.\<close>

fun any_dimension_below :: "CorrelationMetrics list \<Rightarrow> bool" where
  "any_dimension_below [] = False"
| "any_dimension_below (dim_metrics # rest) =
     (if pearson_r dim_metrics < 70 / 100 then True else any_dimension_below rest)"

text \<open>\<^verbatim>\<open>_check_calibration_needed\<close>.\<close>

definition check_calibration_needed ::
  "CorrelationMetrics \<Rightarrow> (string \<times> CorrelationMetrics) list \<Rightarrow> bool" where
  "check_calibration_needed overall dims =
     (if pearson_r overall < 80 / 100 then True
      else if mean_absolute_error overall > 1 then True
      else any_dimension_below (map snd dims))"

text \<open>\<^verbatim>\<open>sep.join(xs)\<close>.\<close>

fun py_join :: "string \<Rightarrow> string list \<Rightarrow> string" where
  "py_join sep [] = []"
| "py_join sep [x] = x"
| "py_join sep (x # y # ys) = x @ sep @ py_join sep (y # ys)"

text \<open>The loop of \<^verbatim>\<open>_generate_recommendations\<close> that lists the weak dimensions.\<close>

fun weak_dimensions :: "stats_lib \<Rightarrow> (string \<times> CorrelationMetrics) list \<Rightarrow> string list" where
  "weak_dimensions lib [] = []"
| "weak_dimensions lib ((dim_key, metrics) # rest) =
     (if pearson_r metrics < 70 / 100
      then (dim_key @ '' ('' @ fmt_2f lib (pearson_r metrics) @ '')'') # weak_dimensions lib rest
      else weak_dimensions lib rest)"

definition calibration_line :: string where
  "calibration_line =
     ''CALIBRATION RECOMMENDED: Run recalibration process with additional ''
     @ ''human annotations to improve judge accuracy.''"

definition acceptable_line :: string where
  "acceptable_line = ''Judge performance is within acceptable parameters.''"

definition insufficient_line :: string where
  "insufficient_line =
     ''Insufficient data for meta-evaluation. Need at least 10 human annotations.''"

text \<open>\<^verbatim>\<open>_generate_recommendations\<close>: \<open>r1\<close> to \<open>r5\<close> are the list after each block.\<close>

definition generate_recommendations ::
  "stats_lib \<Rightarrow> CorrelationMetrics \<Rightarrow> (string \<times> CorrelationMetrics) list \<Rightarrow> bool
     \<Rightarrow> string list" where
  "generate_recommendations lib overall dims calibration_flag =
     (let r1 = (if sample_size overall < 50
                then [''Current sample size ('' @ str_nat (sample_size overall)
                       @ '') is small. ''
                       @ ''Aim for at least 50 human annotations for reliable metrics.'']
                else []);
          r2 = (if pearson_r overall < 70 / 100
                then r1 @ [''Overall correlation ('' @ fmt_2f lib (pearson_r overall)
                       @ '') is below acceptable threshold (0.70). ''
                       @ ''Consider reviewing prompt engineering and few-shot examples.'']
                else if pearson_r overall < 80 / 100
                then r1 @ [''Overall correlation ('' @ fmt_2f lib (pearson_r overall)
                       @ '') is moderate. ''
                       @ ''Minor calibration adjustments recommended.'']
                else if pearson_r overall \<ge> 87 / 100
                then r1 @ [''Excellent correlation ('' @ fmt_2f lib (pearson_r overall)
                       @ '') achieved. ''
                       @ ''Judge is well-calibrated with human assessments.'']
                else r1);
          r3 = (if mean_absolute_error overall > 15 / 10
                then r2 @ [''High mean absolute error (''
                       @ fmt_2f lib (mean_absolute_error overall) @ ''). ''
                       @ ''Judge scores deviate significantly from human scores on average.'']
                else r2);
          weak = weak_dimensions lib dims;
          r4 = (if weak \<noteq> []
                then r3 @ [''Weak correlation in dimensions: '' @ py_join '', '' weak @ ''. ''
                       @ ''Review rubric criteria and scoring anchors for these dimensions.'']
                else r3);
          r5 = (if calibration_flag then r4 @ [calibration_line] else r4)
      in if r5 = [] then r5 @ [acceptable_line] else r5)"

text \<open>\<^verbatim>\<open>calculate_metrics\<close>, on the rows the query of \<^verbatim>\<open>_get_score_pairs\<close> returns.\<close>

definition calculate_metrics :: "stats_lib \<Rightarrow> score_row list \<Rightarrow> pyerr + MetaEvaluationResponse" where
  "calculate_metrics lib rows =
     (let pairs = get_score_pairs rows in
      if length pairs < 10
      then Inr \<lparr>overall_correlation = zero_metrics (length pairs),
                dimension_correlations = [],
                calibration_needed = True,
                recommendations = [insufficient_line],
                last_calculated = utcnow lib\<rparr>
      else
        bindE (calculate_correlation_metrics lib
                 (map (\<lambda>p. JNum (judge_overall p)) pairs)
                 (map (\<lambda>p. JNum (human_overall p)) pairs)) (\<lambda>overall.
        bindE (calculate_dimension_correlations lib pairs) (\<lambda>dims.
          let needed = check_calibration_needed overall dims;
              recs = generate_recommendations lib overall dims needed
          in Inr \<lparr>overall_correlation = overall,
                  dimension_correlations = dims,
                  calibration_needed = needed,
                  recommendations = recs,
                  last_calculated = utcnow lib\<rparr>)))"

section \<open>The batch orchestrator (evaluate_batch in judge/engine.py)\<close>

text \<open>
  \<^verbatim>\<open>evaluate_batch\<close> starts one task per conversation and awaits
  \<^verbatim>\<open>asyncio.gather(*tasks)\<close>. A task waits for the semaphore, runs \<^verbatim>\<open>evaluate\<close>, counts
  itself as completed, reports progress, and releases the semaphore. The event loop
  decides the order; an execution is a list of events, each enabled in the state the
  events before it produced. A task that has finished holds what its \<^verbatim>\<open>evaluate\<close>
  returned or raised.
\<close>

datatype task = Waiting | Running | Done "pyerr + EvaluationResult"

datatype event = Acquire nat | Finish nat

text \<open>The semaphore's value, the tasks in the order of the conversations (the order in
  which \<^verbatim>\<open>gather\<close> returns their results), the counter \<^verbatim>\<open>completed\<close>, the calls made to
  \<^verbatim>\<open>progress_callback\<close>, and the first exception a task raised.\<close>

record batch_state =
  permits :: nat
  tasks :: "task list"
  completed :: nat
  progress :: "(nat \<times> nat) list"
  raised :: "pyerr option"

text \<open>\<^verbatim>\<open>asyncio.Semaphore(concurrency)\<close> raises \<^verbatim>\<open>ValueError\<close> for a negative value.\<close>

definition batch_init :: "int \<Rightarrow> nat \<Rightarrow> pyerr + batch_state" where
  "batch_init concurrency n =
     (if concurrency < 0 then Inl ValueError
      else Inr \<lparr>permits = nat concurrency, tasks = replicate n Waiting, completed = 0,
                progress = [], raised = None\<rparr>)"

text \<open>The call inside \<^verbatim>\<open>evaluate_with_semaphore(conv, idx)\<close>.\<close>

definition task_body ::
  "engine_env \<Rightarrow> JudgeEngine \<Rightarrow> Conversation list \<Rightarrow> bool \<Rightarrow> bool \<Rightarrow> nat
     \<Rightarrow> pyerr + EvaluationResult" where
  "task_body env eng conversations include_few_shot include_calibration idx =
     evaluate env eng (conversations ! idx) (include_few_shot \<and> idx = 0) include_calibration"

text \<open>One event; \<open>None\<close> when the event is not enabled. A task acquires the semaphore only
  while its value is positive. A task that finishes with a result increments
  \<^verbatim>\<open>completed\<close>, reports \<^verbatim>\<open>(completed, len(conversations))\<close> and releases the
  semaphore; one whose \<^verbatim>\<open>evaluate\<close> raises releases the semaphore and passes the
  exception on.\<close>

fun batch_step :: "(nat \<Rightarrow> pyerr + EvaluationResult) \<Rightarrow> event \<Rightarrow> batch_state \<Rightarrow> batch_state option" where
  "batch_step body (Acquire i) st =
     (if i < length (tasks st) \<and> tasks st ! i = Waiting \<and> 0 < permits st
      then Some (st\<lparr>permits := permits st - 1, tasks := (tasks st)[i := Running]\<rparr>)
      else None)"
| "batch_step body (Finish i) st =
     (if i < length (tasks st) \<and> tasks st ! i = Running
      then (case body i of
              Inr r \<Rightarrow>
                Some (st\<lparr>permits := permits st + 1,
                         tasks := (tasks st)[i := Done (Inr r)],
                         completed := completed st + 1,
                         progress := progress st @ [(completed st + 1, length (tasks st))]\<rparr>)
            | Inl e \<Rightarrow>
                Some (st\<lparr>permits := permits st + 1,
                         tasks := (tasks st)[i := Done (Inl e)],
                         raised := (case raised st of None \<Rightarrow> Some e | Some e0 \<Rightarrow> Some e0)\<rparr>))
      else None)"

fun run_events ::
  "(nat \<Rightarrow> pyerr + EvaluationResult) \<Rightarrow> event list \<Rightarrow> batch_state \<Rightarrow> batch_state option" where
  "run_events body [] st = Some st"
| "run_events body (ev # evs) st =
     (case batch_step body ev st of None \<Rightarrow> None | Some st' \<Rightarrow> run_events body evs st')"

text \<open>The results of the tasks in task order, once every task has one.\<close>

fun collect :: "task list \<Rightarrow> EvaluationResult list option" where
  "collect [] = Some []"
| "collect (Done (Inr r) # ts) = map_option ((#) r) (collect ts)"
| "collect (_ # ts) = None"

text \<open>What awaiting \<^verbatim>\<open>gather\<close> yields: the first exception raised, or the results in task
  order; \<open>None\<close> while it is still pending.\<close>

definition gather :: "batch_state \<Rightarrow> (pyerr + EvaluationResult list) option" where
  "gather st =
     (case raised st of
        Some e \<Rightarrow> Some (Inl e)
      | None \<Rightarrow> map_option Inr (collect (tasks st)))"

text \<open>\<^verbatim>\<open>evaluate_batch\<close> under the schedule \<open>schedule\<close>: \<open>None\<close> when the schedule is not an
  execution of the batch, or the batch has not returned at its end.\<close>

definition evaluate_batch ::
  "engine_env \<Rightarrow> JudgeEngine \<Rightarrow> Conversation list \<Rightarrow> bool \<Rightarrow> bool \<Rightarrow> int \<Rightarrow> event list
     \<Rightarrow> (pyerr + EvaluationResult list) option" where
  "evaluate_batch env eng conversations include_few_shot include_calibration concurrency schedule =
     (case batch_init concurrency (length conversations) of
        Inl e \<Rightarrow> Some (Inl e)
      | Inr st0 \<Rightarrow>
          (case run_events (task_body env eng conversations include_few_shot include_calibration)
                  schedule st0 of
             None \<Rightarrow> None
           | Some st \<Rightarrow> gather st))"

text \<open>The state of the batch after the events of \<open>schedule\<close>.\<close>

definition batch_after ::
  "engine_env \<Rightarrow> JudgeEngine \<Rightarrow> Conversation list \<Rightarrow> bool \<Rightarrow> bool \<Rightarrow> int \<Rightarrow> event list
     \<Rightarrow> batch_state option" where
  "batch_after env eng conversations include_few_shot include_calibration concurrency schedule =
     (case batch_init concurrency (length conversations) of
        Inl e \<Rightarrow> None
      | Inr st0 \<Rightarrow>
          run_events (task_body env eng conversations include_few_shot include_calibration)
            schedule st0)"

text \<open>What is left to do: two events for a waiting task, one for a running task.\<close>

definition remaining :: "batch_state \<Rightarrow> nat" where
  "remaining st = 2 * count_list (tasks st) Waiting + count_list (tasks st) Running"

text \<open>The invariant of an execution: the semaphore's value and the running tasks add up to
  \<open>c\<close>, a finished task holds the outcome of its own body, and while no exception is
  recorded no task has raised.\<close>

definition batch_inv :: "(nat \<Rightarrow> pyerr + EvaluationResult) \<Rightarrow> nat \<Rightarrow> batch_state \<Rightarrow> bool" where
  "batch_inv body c st =
     (permits st + count_list (tasks st) Running = c
      \<and> (\<forall>i < length (tasks st). \<forall>out. tasks st ! i = Done out \<longrightarrow> out = body i)
      \<and> (raised st = None \<longrightarrow> (\<forall>i < length (tasks st). \<forall>e. tasks st ! i \<noteq> Done (Inl e))))"

section \<open>Example inputs\<close>

text \<open>Two decoders for the examples: one that yields a fixed value, one that fails with a
  fixed message.\<close>

definition decode_to :: "json \<Rightarrow> string \<Rightarrow> string + json" where
  "decode_to data s = Inr data"

definition decode_fail :: "string \<Rightarrow> string \<Rightarrow> string + json" where
  "decode_fail msg s = Inl msg"

text \<open>A response that scores accuracy 2 and compliance 4 and reports no flag.\<close>

definition low_scores_response :: string where
  \<open>low_scores_response =
     ''{"dimension_scores": {"accuracy": {"score": 2}, "compliance": {"score": 4}}, "flags": {}}''\<close>

definition low_scores_data :: json where
  "low_scores_data =
     JObj [(''dimension_scores'',
            JObj [(''accuracy'', JObj [(''score'', JNum 2)]),
                  (''compliance'', JObj [(''score'', JNum 4)])]),
           (''flags'', JObj [])]"

text \<open>A response that is a JSON list, and one whose \<open>dimension_scores\<close> is a list.\<close>

definition list_response :: string where
  "list_response = ''[]''"

definition list_scores_response :: string where
  \<open>list_scores_response = ''{"dimension_scores": []}''\<close>

definition list_scores_data :: json where
  "list_scores_data = JObj [(''dimension_scores'', JArr [])]"






text \<open>A response with a dimension the rubric has, stating a weight of its own, and one the
  rubric does not have, with no field at all.\<close>

definition stated_weight_response :: string where
  \<open>stated_weight_response =
     ''{"dimension_scores": {"accuracy": {"score": 4, "weight": 0.9}, "novelty": {}}}''\<close>

definition stated_weight_entries :: "(string \<times> json) list" where
  "stated_weight_entries =
     [(''accuracy'', JObj [(''score'', JNum 4), (''weight'', JNum (9 / 10))]),
      (''novelty'', JObj [])]"

definition stated_weight_data :: json where
  "stated_weight_data = JObj [(''dimension_scores'', JObj stated_weight_entries)]"

text \<open>An environment for \<open>evaluate\<close>: the model answers with a JSON list.\<close>

definition answer_with :: "string \<Rightarrow> JudgeConfig \<Rightarrow> string \<Rightarrow> string \<Rightarrow> pyerr + string" where
  "answer_with text cfg system_prompt user_prompt = Inr text"

definition fixed_system_prompt :: "Rubric \<Rightarrow> pyerr + string" where
  "fixed_system_prompt rb = Inr ''system''"

definition fixed_user_prompt :: "Rubric \<Rightarrow> Conversation \<Rightarrow> bool \<Rightarrow> pyerr + string" where
  "fixed_user_prompt rb conv few_shot = Inr (if few_shot then ''examples'' else ''plain'')"

definition plain_exc_str :: "pyerr \<Rightarrow> string" where
  "plain_exc_str e = (case e of
       AttributeError \<Rightarrow> ''AttributeError''
     | TypeError \<Rightarrow> ''TypeError''
     | IndexError \<Rightarrow> ''IndexError''
     | ValueError \<Rightarrow> ''ValueError''
     | RuntimeError m \<Rightarrow> m
     | ExternalError m \<Rightarrow> m)"

definition zero_elapsed :: "Conversation \<Rightarrow> int" where
  "zero_elapsed conv = 0"

definition list_env :: engine_env where
  "list_env =
     \<lparr>loads = decode_to (JArr []),
      exc_str = plain_exc_str,
      build_system_prompt = fixed_system_prompt,
      build_user_prompt = fixed_user_prompt,
      call_openai_compatible = answer_with ''[]'',
      call_anthropic = answer_with ''[]'',
      elapsed_ms = zero_elapsed\<rparr>"

definition default_config :: JudgeConfig where
  "default_config =
     \<lparr>provider = OPENAI_COMPATIBLE,
      model_name = ''Qwen/Qwen2.5-72B-Instruct-GPTQ-Int4'',
      base_url = ''http://localhost:8080/v1'',
      api_key = ''not-needed'',
      temperature = 1 / 10,
      max_tokens = 4096,
      timeout = 120\<rparr>"

definition default_engine :: JudgeEngine where
  "default_engine = \<lparr>config = default_config, rubric = DEFAULT_RUBRIC, client = True\<rparr>"

definition conv1 :: Conversation where
  "conv1 =
     \<lparr>conv_id = ''CONV-001'', category = ''retoure'', timestamp = 0,
      messages = [JObj [(''role'', JStr ''customer''), (''content'', JStr ''Hallo'')]],
      metadata = JObj []\<rparr>"





text \<open>Two statistics libraries for the examples: one whose every function raises, and one
  that reports a correlation of 0.9 and errors of 0.5 and 1 for any input.\<close>

definition failing_stats :: stats_lib where
  "failing_stats =
     \<lparr>pearsonr = (\<lambda>xs ys. Inl (ExternalError ''pearsonr'')),
      spearmanr = (\<lambda>xs ys. Inl (ExternalError ''spearmanr'')),
      kendalltau = (\<lambda>xs ys. Inl (ExternalError ''kendalltau'')),
      sk_mean_absolute_error = (\<lambda>xs ys. Inl (ExternalError ''mean_absolute_error'')),
      sk_mean_squared_error = (\<lambda>xs ys. Inl (ExternalError ''mean_squared_error'')),
      digitize = (\<lambda>xs bins. Inl (ExternalError ''digitize'')),
      cohen_kappa_score = (\<lambda>xs ys. Inl (ExternalError ''cohen_kappa_score'')),
      round4 = (\<lambda>x. x),
      fmt_2f = (\<lambda>x. ''?''),
      utcnow = 0\<rparr>"

definition agreeing_stats :: stats_lib where
  "agreeing_stats =
     \<lparr>pearsonr = (\<lambda>xs ys. Inr (9 / 10)),
      spearmanr = (\<lambda>xs ys. Inr (9 / 10)),
      kendalltau = (\<lambda>xs ys. Inr (9 / 10)),
      sk_mean_absolute_error = (\<lambda>xs ys. Inr (1 / 2)),
      sk_mean_squared_error = (\<lambda>xs ys. Inr 1),
      digitize = (\<lambda>xs bins. Inr (map (\<lambda>x. 0) xs)),
      cohen_kappa_score = (\<lambda>xs ys. Inr 1),
      round4 = (\<lambda>x. x),
      fmt_2f = (\<lambda>x. ''0.90''),
      utcnow = 0\<rparr>"

definition row0 :: score_row where
  "row0 =
     \<lparr>row_id = ''e1'', row_overall_score = 4 / 5,
      row_dimension_scores = JObj [(''accuracy'', JObj [(''score'', JNum 4)])],
      row_human_overall = 4 / 5,
      row_human_dimensions = JObj [(''accuracy'', JNum 4)]\<rparr>"

definition three_rows :: "score_row list" where
  "three_rows = [row0, row0, row0]"

definition ten_rows :: "score_row list" where
  "ten_rows = [row0, row0, row0, row0, row0, row0, row0, row0, row0, row0]"

definition disagreeing_stats :: stats_lib where
  "disagreeing_stats =
     \<lparr>pearsonr = (\<lambda>xs ys. Inr (1 / 2)),
      spearmanr = (\<lambda>xs ys. Inr (1 / 2)),
      kendalltau = (\<lambda>xs ys. Inr (1 / 2)),
      sk_mean_absolute_error = (\<lambda>xs ys. Inr 2),
      sk_mean_squared_error = (\<lambda>xs ys. Inr 4),
      digitize = (\<lambda>xs bins. Inr (map (\<lambda>x. 0) xs)),
      cohen_kappa_score = (\<lambda>xs ys. Inr 0),
      round4 = (\<lambda>x. x),
      fmt_2f = (\<lambda>x. if x = 2 then ''2.00'' else ''0.50''),
      utcnow = 0\<rparr>"

definition ten_report :: MetaEvaluationResponse where
  "ten_report =
     \<lparr>overall_correlation =
        \<lparr>pearson_r = 9 / 10, spearman_rho = 9 / 10, kendall_tau = 9 / 10,
         mean_absolute_error = 1 / 2, root_mean_squared_error = 1, cohen_kappa = 1,
         sample_size = 10\<rparr>,
      dimension_correlations =
        [(''accuracy'',
          \<lparr>pearson_r = 9 / 10, spearman_rho = 9 / 10, kendall_tau = 9 / 10,
           mean_absolute_error = 1 / 2, root_mean_squared_error = 1, cohen_kappa = 1,
           sample_size = 10\<rparr>)],
      calibration_needed = False,
      recommendations =
        [''Current sample size (10) is small. ''
           @ ''Aim for at least 50 human annotations for reliable metrics.'',
         ''Excellent correlation (0.90) achieved. ''
           @ ''Judge is well-calibrated with human assessments.''],
      last_calculated = 0\<rparr>"




text \<open>An environment in which the model echoes the user prompt and the decoder rejects
  every text with the text as its message: the result of \<open>evaluate\<close> shows whether the
  few-shot examples were in the prompt.\<close>

definition echo_llm :: "JudgeConfig \<Rightarrow> string \<Rightarrow> string \<Rightarrow> pyerr + string" where
  "echo_llm cfg system_prompt user_prompt = Inr user_prompt"

definition reject_all :: "string \<Rightarrow> string + json" where
  "reject_all s = Inl s"

definition echo_env :: engine_env where
  "echo_env =
     \<lparr>loads = reject_all,
      exc_str = plain_exc_str,
      build_system_prompt = fixed_system_prompt,
      build_user_prompt = fixed_user_prompt,
      call_openai_compatible = echo_llm,
      call_anthropic = echo_llm,
      elapsed_ms = zero_elapsed\<rparr>"

definition echo_result :: "string \<Rightarrow> string \<Rightarrow> EvaluationResult" where
  "echo_result cid prompt =
     (create_error_result cid (''JSON parse error: '' @ prompt))
       \<lparr>processing_time_ms := 0,
        result_model_name := ''Qwen/Qwen2.5-72B-Instruct-GPTQ-Int4'',
        rubric_version := JStr ''1.0.0''\<rparr>"

definition conv2 :: Conversation where
  "conv2 =
     \<lparr>conv_id = ''CONV-002'', category = ''beschwerde'', timestamp = 0,
      messages = [JObj [(''role'', JStr ''customer''), (''content'', JStr ''Guten Tag'')]],
      metadata = JObj []\<rparr>"

section \<open>Lemmas about the Python helpers\<close>

lemma bindE_Inr_iff: "bindE m f = Inr y \<longleftrightarrow> (\<exists>x. m = Inr x \<and> f x = Inr y)"
  by (cases m) (auto simp: bindE_def)

lemma bindE_simps [simp]: "bindE (Inl e) f = Inl e" "bindE (Inr x) f = f x"
  by (simp_all add: bindE_def)

lemma py_get_Inr: "py_get v k d = Inr x \<Longrightarrow> \<exists>kvs. v = JObj kvs \<and> x = (case map_of kvs k of Some v \<Rightarrow> v | None \<Rightarrow> d)"
  by (cases v) auto

lemma py_items_Inr: "py_items v = Inr kvs \<Longrightarrow> v = JObj kvs"
  by (cases v) auto

lemma pds_step:
  "parse_dimension_scores rb ((k, v) # rest) acc = Inr dss \<Longrightarrow>
     \<exists>flds. v = JObj flds \<and>
       parse_dimension_scores rb rest (AList.update k (parsed_dimension rb k flds) acc) = Inr dss"
  by (cases v) (auto simp: parsed_dimension_def Let_def)

lemma pds_other:
  "parse_dimension_scores rb entries acc = Inr dss \<Longrightarrow> k \<notin> fst ` set entries \<Longrightarrow>
     map_of dss k = map_of acc k"
proof (induction entries arbitrary: acc)
  case Nil
  then show ?case by simp
next
  case (Cons e entries)
  obtain k' v where e: "e = (k', v)" by (cases e)
  from Cons.prems(1) e obtain flds where
    step: "parse_dimension_scores rb entries (AList.update k' (parsed_dimension rb k' flds) acc) = Inr dss"
    using pds_step by blast
  from Cons.prems(2) e have "k \<noteq> k'" "k \<notin> fst ` set entries" by auto
  with Cons.IH [OF step] show ?case by (simp add: update_conv')
qed

lemma pds_entry:
  "parse_dimension_scores rb entries acc = Inr dss \<Longrightarrow> distinct (map fst entries) \<Longrightarrow>
     (k, v) \<in> set entries \<Longrightarrow>
     \<exists>flds. v = JObj flds \<and> map_of dss k = Some (parsed_dimension rb k flds)"
proof (induction entries arbitrary: acc)
  case Nil
  then show ?case by simp
next
  case (Cons e entries)
  obtain k' v' where e: "e = (k', v')" by (cases e)
  from Cons.prems(1) e obtain flds where v': "v' = JObj flds" and
    step: "parse_dimension_scores rb entries (AList.update k' (parsed_dimension rb k' flds) acc) = Inr dss"
    using pds_step by blast
  show ?case
  proof (cases "(k, v) = (k', v')")
    case True
    with Cons.prems(2) e have "k \<notin> fst ` set entries" by auto
    from pds_other [OF step this] True v' show ?thesis by (simp add: update_conv')
  next
    case False
    with Cons.prems e have "(k, v) \<in> set entries" "distinct (map fst entries)" by auto
    from Cons.IH [OF step this(2) this(1)] show ?thesis .
  qed
qed

lemma pds_keys:
  "parse_dimension_scores rb entries acc = Inr dss \<Longrightarrow>
     set (map fst dss) = set (map fst acc) \<union> set (map fst entries)"
proof (induction entries arbitrary: acc)
  case Nil
  then show ?case by simp
next
  case (Cons e entries)
  obtain k' v' where e: "e = (k', v')" by (cases e)
  from Cons.prems(1) e obtain flds where
    step: "parse_dimension_scores rb entries (AList.update k' (parsed_dimension rb k' flds) acc) = Inr dss"
    using pds_step by blast
  from Cons.IH [OF step] e show ?case by (auto simp: dom_update)
qed



lemma sum_list_const_score:
  "\<forall>d \<in> set ds. py_num (score d) = Some c \<Longrightarrow>
     sum_list (map (\<lambda>d. num_val (score d) / 5 * num_val (weight d)) ds)
       = c / 5 * sum_list (map (\<lambda>d. num_val (weight d)) ds)"
  by (induction ds) (simp_all add: num_val_def algebra_simps)



lemma parse_response_decoded:
  "extract_json response = Inr js \<Longrightarrow> lds (strip js) = Inr data \<Longrightarrow>
     parse_response lds rb response cid = parse_data rb data response cid"
  by (simp add: parse_response_def)


lemma py_split_from_nonempty: "py_split_from sep acc s \<noteq> []"
  by (induction sep acc s rule: py_split_from.induct) auto

lemma py_split_from_two:
  "sep \<noteq> [] \<Longrightarrow> contains sep s \<Longrightarrow> 2 \<le> length (py_split_from sep acc s)"
proof (induction sep acc s rule: py_split_from.induct)
  case (1 sep acc)
  then show ?case by simp
next
  case (2 sep acc c cs)
  show ?case
  proof (cases "take (length sep) (c # cs) = sep")
    case True
    with "2.prems" py_split_from_nonempty [of sep "[]" "drop (length sep) (c # cs)"]
    show ?thesis by (cases "py_split_from sep [] (drop (length sep) (c # cs))") auto
  next
    case False
    with "2.prems" have "contains sep cs" by simp
    with "2.IH"(2) "2.prems" False show ?thesis by simp
  qed
qed

lemma py_index_0: "\<exists>x. py_index (py_split sep s) 0 = Inr x"
  using py_split_from_nonempty [of sep "[]" s] by (simp add: py_index_def py_split_def)

lemma py_index_1: "sep \<noteq> [] \<Longrightarrow> contains sep s \<Longrightarrow> \<exists>x. py_index (py_split sep s) 1 = Inr x"
  using py_split_from_two [of sep s "[]"] by (simp add: py_index_def py_split_def)

lemma extract_json_total: "\<exists>js. extract_json response = Inr js"
proof -
  have a: "\<exists>js. bindE (py_index (py_split sep response) 1) (\<lambda>p. py_index (py_split ''```'' p) 0) = Inr js"
    if "sep \<noteq> []" "contains sep response" for sep
  proof -
    from py_index_1 [OF that] obtain p where p: "py_index (py_split sep response) 1 = Inr p" by blast
    from py_index_0 [of "''```''" p] obtain x where "py_index (py_split ''```'' p) 0 = Inr x" by blast
    with p show ?thesis by simp
  qed
  show ?thesis
    unfolding extract_json_def using a [of "''```json''"] a [of "''```''"] by auto
qed

lemma error_result_fields:
  "critical_error (flags (create_error_result cid err)) = JBool True
   \<and> overall_score (create_error_result cid err) = 0
   \<and> dimension_scores (create_error_result cid err) = []
   \<and> context_analysis (chain_of_thought (create_error_result cid err)) = JStr (''Error: '' @ err)
   \<and> raw_response (create_error_result cid err) = None"
  by (simp add: create_error_result_def)

lemma parse_data_dims:
  assumes "parse_data rb (JObj kvs) response cid = Inr r"
    and "map_of kvs ''dimension_scores'' = Some (JObj entries)"
  shows "parse_dimension_scores rb entries [] = Inr (dimension_scores r)"
  using assms unfolding parse_data_def bindE_Inr_iff by (elim exE conjE) auto

section \<open>The response parser and scorer\<close>

text \<open>
  Claim C1. The claim: whenever a parsed response has a dimension "accuracy" with a score
  below 3 the result has \<open>critical_error = true\<close>, and whenever it has a dimension
  "compliance" with a score below 5 the result has \<open>compliance_issue = true\<close>, whatever
  flags the model reported. The parser has no such pass: the flags of the result are the
  flags object of the response, with \<open>False\<close> for a missing key. For the response below
  (accuracy 2, compliance 4, no flag reported) and the default rubric, all three flags of
  the result are false.
\<close>

theorem parse_response_flags_not_derived:
  "parse_response (decode_to low_scores_data) DEFAULT_RUBRIC low_scores_response ''TEST''
     = Inr \<lparr>conversation_id = ''TEST'',
            overall_score = 26 / 45,
            dimension_scores =
              [(''accuracy'',
                \<lparr>score = JNum 2, weight = JNum (25 / 100), reasoning = JStr [],
                 evidence = JArr []\<rparr>),
               (''compliance'',
                \<lparr>score = JNum 4, weight = JNum (20 / 100), reasoning = JStr [],
                 evidence = JArr []\<rparr>)],
            chain_of_thought =
              \<lparr>context_analysis = JStr [], response_analysis = JStr [],
               legal_check = JStr [], language_assessment = JStr []\<rparr>,
            summary = JStr [],
            improvement_suggestions = JArr [],
            flags =
              \<lparr>critical_error = JBool False, compliance_issue = JBool False,
               escalation_needed = JBool False\<rparr>,
            result_model_name = [],
            rubric_version = JStr [],
            processing_time_ms = 0,
            raw_response = Some low_scores_response\<rparr>"
  by (simp add: parse_response_def extract_json_def low_scores_response_def decode_to_def
      parse_data_def low_scores_data_def DEFAULT_RUBRIC_def weighted_average_def)

text \<open>
  Claim C2, as amended. The fence extraction never raises. When the JSON decoder rejects the
  extracted text, \<open>parse_response\<close> returns the error result: \<open>critical_error\<close> true,
  overall score 0, no dimension scores, \<open>context_analysis\<close> "Error: JSON parse error: ..."
  and no raw response (\<open>raw_response\<close> is \<open>None\<close>: the model's text is not kept). An
  exception the parser raises on decoded JSON of the wrong shape is not caught in the
  parser but in \<open>evaluate\<close>: once the prompts are built \<open>evaluate\<close> always returns a
  result, and when the parser raised \<open>e\<close> that result is the error result for \<open>str(e)\<close>,
  with the processing time, model name and rubric version filled in.
\<close>

theorem parse_response_failure_modes:
  "(\<exists>js. extract_json response = Inr js \<and>
      (\<forall>msg. lds (strip js) = Inl msg \<longrightarrow>
         parse_response lds rb response cid
           = Inr (create_error_result cid (''JSON parse error: '' @ msg))))
   \<and> (critical_error (flags (create_error_result cid err)) = JBool True
      \<and> overall_score (create_error_result cid err) = 0
      \<and> dimension_scores (create_error_result cid err) = []
      \<and> context_analysis (chain_of_thought (create_error_result cid err)) = JStr (''Error: '' @ err)
      \<and> raw_response (create_error_result cid err) = None)
   \<and> (\<forall>sp up. build_system_prompt env (rubric eng) = Inr sp
          \<and> build_user_prompt env (rubric eng) conv fs = Inr up \<longrightarrow>
        (\<exists>r. evaluate env eng conv fs cal = Inr r)
        \<and> (\<forall>resp e. call_llm env eng sp up = Inr resp
              \<and> parse_response (loads env) (rubric eng) resp (conv_id conv) = Inl e \<longrightarrow>
            evaluate env eng conv fs cal
              = Inr ((create_error_result (conv_id conv) (exc_str env e))
                      \<lparr>processing_time_ms := elapsed_ms env conv,
                       result_model_name := model_name (config eng),
                       rubric_version := version (rubric eng)\<rparr>)))"
proof (intro conjI)
  from extract_json_total obtain js where js: "extract_json response = Inr js" by blast
  then show "\<exists>js. extract_json response = Inr js \<and>
      (\<forall>msg. lds (strip js) = Inl msg \<longrightarrow>
         parse_response lds rb response cid
           = Inr (create_error_result cid (''JSON parse error: '' @ msg)))"
    by (auto simp: parse_response_def)
next
  show "\<forall>sp up. build_system_prompt env (rubric eng) = Inr sp
          \<and> build_user_prompt env (rubric eng) conv fs = Inr up \<longrightarrow>
        (\<exists>r. evaluate env eng conv fs cal = Inr r)
        \<and> (\<forall>resp e. call_llm env eng sp up = Inr resp
              \<and> parse_response (loads env) (rubric eng) resp (conv_id conv) = Inl e \<longrightarrow>
            evaluate env eng conv fs cal
              = Inr ((create_error_result (conv_id conv) (exc_str env e))
                      \<lparr>processing_time_ms := elapsed_ms env conv,
                       result_model_name := model_name (config eng),
                       rubric_version := version (rubric eng)\<rparr>))"
    by (auto simp: evaluate_def Let_def)
qed (simp_all add: create_error_result_def)

theorem parse_response_failure_modes_witness:
  "parse_response (decode_fail ''Expecting value: line 1 column 1 (char 0)'') DEFAULT_RUBRIC
       ''invalid json {{{'' ''TEST-001''
     = Inr (create_error_result ''TEST-001''
              ''JSON parse error: Expecting value: line 1 column 1 (char 0)'')
   \<and> critical_error (flags (create_error_result ''TEST-001''
              ''JSON parse error: Expecting value: line 1 column 1 (char 0)'')) = JBool True
   \<and> parse_response (loads list_env) (rubric default_engine) ''[]'' (conv_id conv1)
        = Inl AttributeError
   \<and> evaluate list_env default_engine conv1 True True
        = Inr ((create_error_result ''CONV-001'' ''AttributeError'')
                \<lparr>processing_time_ms := 0,
                 result_model_name := ''Qwen/Qwen2.5-72B-Instruct-GPTQ-Int4'',
                 rubric_version := JStr ''1.0.0''\<rparr>)"
proof -
  note t = parse_response_failure_modes [where response = "''invalid json {{{''"
      and lds = "decode_fail ''Expecting value: line 1 column 1 (char 0)''"
      and rb = DEFAULT_RUBRIC and cid = "''TEST-001''"
      and err = "''JSON parse error: Expecting value: line 1 column 1 (char 0)''"
      and env = list_env and eng = default_engine and conv = conv1 and fs = True and cal = True]
  have ex: "extract_json ''invalid json {{{'' = Inr ''invalid json {{{''"
    by (simp add: extract_json_def)
  have raised: "parse_response (loads list_env) (rubric default_engine) ''[]'' (conv_id conv1)
        = Inl AttributeError"
    by (simp add: parse_response_def extract_json_def list_env_def decode_to_def parse_data_def)
  have sp: "build_system_prompt list_env (rubric default_engine) = Inr ''system''"
    by (simp add: list_env_def fixed_system_prompt_def)
  have up: "build_user_prompt list_env (rubric default_engine) conv1 True = Inr ''examples''"
    by (simp add: list_env_def fixed_user_prompt_def)
  have llm: "call_llm list_env default_engine ''system'' ''examples'' = Inr ''[]''"
    by (simp add: call_llm_def list_env_def default_engine_def default_config_def
        answer_with_def)
  from t ex have a: "parse_response (decode_fail ''Expecting value: line 1 column 1 (char 0)'')
       DEFAULT_RUBRIC ''invalid json {{{'' ''TEST-001''
     = Inr (create_error_result ''TEST-001''
              ''JSON parse error: Expecting value: line 1 column 1 (char 0)'')"
    by (auto simp: decode_fail_def)
  from t have b: "critical_error (flags (create_error_result ''TEST-001''
              ''JSON parse error: Expecting value: line 1 column 1 (char 0)'')) = JBool True"
    by blast
  from t sp up llm raised
  have "evaluate list_env default_engine conv1 True True
        = Inr ((create_error_result (conv_id conv1) (exc_str list_env AttributeError))
                \<lparr>processing_time_ms := elapsed_ms list_env conv1,
                 result_model_name := model_name (config default_engine),
                 rubric_version := version (rubric default_engine)\<rparr>)"
    by blast
  then have c: "evaluate list_env default_engine conv1 True True
        = Inr ((create_error_result ''CONV-001'' ''AttributeError'')
                \<lparr>processing_time_ms := 0,
                 result_model_name := ''Qwen/Qwen2.5-72B-Instruct-GPTQ-Int4'',
                 rubric_version := JStr ''1.0.0''\<rparr>)"
    by (simp add: list_env_def conv1_def plain_exc_str_def zero_elapsed_def default_engine_def
        default_config_def DEFAULT_RUBRIC_def)
  from a b raised c show ?thesis by blast
qed

text \<open>The claim as stated fails: a response that decodes to a list, or whose
  \<open>dimension_scores\<close> is a list, makes the parser raise; and the error result for
  undecodable text does not keep the text.\<close>

theorem parse_response_raises_counterexample:
  "parse_response (decode_to (JArr [])) DEFAULT_RUBRIC list_response ''X'' = Inl AttributeError
   \<and> parse_response (decode_to list_scores_data) DEFAULT_RUBRIC list_scores_response ''X''
       = Inl AttributeError
   \<and> parse_response (decode_fail ''Expecting value: line 1 column 1 (char 0)'') DEFAULT_RUBRIC
        ''invalid json {{{'' ''X''
       = Inr (create_error_result ''X''
                ''JSON parse error: Expecting value: line 1 column 1 (char 0)'')
   \<and> raw_response (create_error_result ''X''
                ''JSON parse error: Expecting value: line 1 column 1 (char 0)'') = None"
  by (simp add: parse_response_def extract_json_def parse_data_def create_error_result_def
      decode_to_def decode_fail_def list_response_def list_scores_response_def
      list_scores_data_def)




text \<open>
  Claim C4. For a response that decodes to an object and parses, every entry \<open>(k, v)\<close> of
  its \<open>dimension_scores\<close> object is an object, and the result maps \<open>k\<close> to a
  \<open>DimensionScore\<close> whose weight is the weight of the rubric's dimension \<open>k\<close>, or 0.1 when
  the rubric has no dimension \<open>k\<close> (a "weight" field of the entry is never read), and whose
  score, reasoning and evidence are the entry's fields, or 3, the empty string and the
  empty list where a field is missing.
\<close>

theorem dimension_weight_from_rubric:
  assumes "extract_json response = Inr js" and "lds (strip js) = Inr (JObj kvs)"
    and "map_of kvs ''dimension_scores'' = Some (JObj entries)"
    and "distinct (map fst entries)"
    and "parse_response lds rb response cid = Inr r"
    and "(k, v) \<in> set entries"
  shows "\<exists>flds. v = JObj flds \<and>
           map_of (dimension_scores r) k =
             Some \<lparr>score = (case map_of flds ''score'' of Some x \<Rightarrow> x | None \<Rightarrow> JNum 3),
                   weight = (case map_of (dimensions rb) k of
                               Some d \<Rightarrow> rd_weight d
                             | None \<Rightarrow> JNum (1 / 10)),
                   reasoning = (case map_of flds ''reasoning'' of Some x \<Rightarrow> x | None \<Rightarrow> JStr []),
                   evidence = (case map_of flds ''evidence'' of Some x \<Rightarrow> x | None \<Rightarrow> JArr [])\<rparr>"
proof -
  from assms(1,2,5) have "parse_data rb (JObj kvs) response cid = Inr r"
    by (simp add: parse_response_decoded)
  from parse_data_dims [OF this assms(3)]
  have "parse_dimension_scores rb entries [] = Inr (dimension_scores r)" .
  from pds_entry [OF this assms(4) assms(6)] show ?thesis
    by (simp add: parsed_dimension_def)
qed

theorem dimension_weight_from_rubric_witness:
  "(\<exists>r. parse_response (decode_to stated_weight_data) DEFAULT_RUBRIC stated_weight_response ''T''
          = Inr r
      \<and> map_of (dimension_scores r) ''accuracy''
          = Some \<lparr>score = JNum 4, weight = JNum (25 / 100), reasoning = JStr [],
                  evidence = JArr []\<rparr>
      \<and> map_of (dimension_scores r) ''novelty''
          = Some \<lparr>score = JNum 3, weight = JNum (1 / 10), reasoning = JStr [],
                  evidence = JArr []\<rparr>)"
proof -
  have ex: "extract_json stated_weight_response = Inr stated_weight_response"
    by (simp add: extract_json_def stated_weight_response_def)
  have dec: "decode_to stated_weight_data (strip stated_weight_response)
      = Inr (JObj [(''dimension_scores'', JObj stated_weight_entries)])"
    by (simp add: decode_to_def stated_weight_data_def)
  have m: "map_of [(''dimension_scores'', JObj stated_weight_entries)] ''dimension_scores''
      = Some (JObj stated_weight_entries)"
    by simp
  have d: "distinct (map fst stated_weight_entries)"
    by (simp add: stated_weight_entries_def)
  obtain r where r: "parse_response (decode_to stated_weight_data) DEFAULT_RUBRIC
      stated_weight_response ''T'' = Inr r"
    by (simp add: parse_response_def ex decode_to_def parse_data_def stated_weight_data_def
        stated_weight_entries_def DEFAULT_RUBRIC_def weighted_average_def)
  have e1: "(''accuracy'', JObj [(''score'', JNum 4), (''weight'', JNum (9 / 10))])
      \<in> set stated_weight_entries"
    by (simp add: stated_weight_entries_def)
  have e2: "(''novelty'', JObj []) \<in> set stated_weight_entries"
    by (simp add: stated_weight_entries_def)
  from dimension_weight_from_rubric [OF ex dec m d r e1]
  have a: "map_of (dimension_scores r) ''accuracy''
          = Some \<lparr>score = JNum 4, weight = JNum (25 / 100), reasoning = JStr [],
                  evidence = JArr []\<rparr>"
    by (simp add: DEFAULT_RUBRIC_def)
  from dimension_weight_from_rubric [OF ex dec m d r e2]
  have b: "map_of (dimension_scores r) ''novelty''
          = Some \<lparr>score = JNum 3, weight = JNum (1 / 10), reasoning = JStr [],
                  evidence = JArr []\<rparr>"
    by (simp add: DEFAULT_RUBRIC_def)
  from r a b show ?thesis by blast
qed

section \<open>The rubric loader\<close>


lemma load_dir: "load env ld n = Inr (r, ld') \<Longrightarrow> rubrics_dir ld' = rubrics_dir ld"
  by (auto simp: load_def split: option.splits sum.splits if_splits)

lemma load_cached: "cache ld n = Some r \<Longrightarrow> load env ld n = Inr (r, ld)"
  by (simp add: load_def)






lemma rubric_file_cache [simp]: "rubric_file (ld\<lparr>cache := c\<rparr>) n = rubric_file ld n"
  by (simp add: rubric_file_def)







text \<open>
  Claim C9. The claim: the loader provides \<open>get_dimensions_for_category(rubric, category)\<close>,
  with category-specific weight overrides ("retoure": compliance 0.25, "beschwerde": tone
  0.30). The class \<open>RubricLoader\<close> defines \<open>__init__\<close>, \<open>load\<close>, \<open>_load_from_file\<close> and
  \<open>list_available\<close> only, and no override table exists in the module: the attribute
  access of the call raises \<open>AttributeError\<close>.
\<close>

theorem no_category_lookup:
  "RubricLoader_getattr ''get_dimensions_for_category'' = Inl AttributeError"
  by (simp add: RubricLoader_getattr_def RubricLoader_attributes_def)
section \<open>Meta-evaluation\<close>

lemma any_dimension_below_iff:
  "any_dimension_below ms \<longleftrightarrow> (\<exists>m \<in> set ms. pearson_r m < 70 / 100)"
  by (induction ms) auto

lemma check_calibration_needed_iff:
  "check_calibration_needed overall dims \<longleftrightarrow>
     pearson_r overall < 80 / 100 \<or> mean_absolute_error overall > 1
     \<or> (\<exists>km \<in> set dims. pearson_r (snd km) < 70 / 100)"
  by (auto simp: check_calibration_needed_def any_dimension_below_iff)

lemma weak_dimensions_nonempty_iff:
  "weak_dimensions lib dims \<noteq> [] \<longleftrightarrow> (\<exists>km \<in> set dims. pearson_r (snd km) < 70 / 100)"
  by (induction dims) (auto split: if_splits)

lemma weak_dimensions_empty_iff:
  "weak_dimensions lib dims = [] \<longleftrightarrow> \<not> (\<exists>km \<in> set dims. pearson_r (snd km) < 70 / 100)"
  using weak_dimensions_nonempty_iff [of lib dims] by blast

lemma recommendations_nonempty: "generate_recommendations lib overall dims flag \<noteq> []"
  by (simp add: generate_recommendations_def Let_def)

lemma calibration_line_iff:
  "calibration_line \<in> set (generate_recommendations lib overall dims flag) \<longleftrightarrow> flag"
  by (simp add: generate_recommendations_def Let_def calibration_line_def acceptable_line_def)

lemma acceptable_only_iff:
  "generate_recommendations lib overall dims flag = [acceptable_line] \<longleftrightarrow>
     50 \<le> sample_size overall \<and> 80 / 100 \<le> pearson_r overall \<and> pearson_r overall < 87 / 100
     \<and> mean_absolute_error overall \<le> 15 / 10 \<and> weak_dimensions lib dims = [] \<and> \<not> flag"
  by (auto simp: generate_recommendations_def Let_def calibration_line_def acceptable_line_def)

lemma acceptable_member:
  "acceptable_line \<in> set (generate_recommendations lib overall dims flag) \<Longrightarrow>
     generate_recommendations lib overall dims flag = [acceptable_line]"
  by (auto simp: generate_recommendations_def Let_def calibration_line_def acceptable_line_def
      split: if_splits)

lemma calculate_metrics_long:
  assumes "10 \<le> length rows" and "calculate_metrics lib rows = Inr rep"
  shows "calibration_needed rep
           = check_calibration_needed (overall_correlation rep) (dimension_correlations rep)
         \<and> recommendations rep
           = generate_recommendations lib (overall_correlation rep) (dimension_correlations rep)
               (calibration_needed rep)"
proof -
  from assms(1) have "\<not> length (get_score_pairs rows) < 10"
    by (simp add: get_score_pairs_def)
  with assms(2) obtain overall dims where
    "rep = \<lparr>overall_correlation = overall,
            dimension_correlations = dims,
            calibration_needed = check_calibration_needed overall dims,
            recommendations = generate_recommendations lib overall dims
                                (check_calibration_needed overall dims),
            last_calculated = utcnow lib\<rparr>"
    by (auto simp: calculate_metrics_def Let_def bindE_Inr_iff)
  then show ?thesis by simp
qed

text \<open>
  Claim C6. With fewer than 10 rows (pairs of a judge and a human score), whatever their
  values, \<open>calculate_metrics\<close> returns the report with all six correlation metrics 0,
  \<open>sample_size\<close> the number of pairs, no dimension correlations,
  \<open>calibration_needed = True\<close> and the one recommendation that states insufficient data.
  The report is the same for every statistics library, also one whose every function
  raises: no statistic is computed.
\<close>

theorem insufficient_data_report:
  "length rows < 10 \<Longrightarrow>
     calculate_metrics lib rows
       = Inr \<lparr>overall_correlation =
                \<lparr>pearson_r = 0, spearman_rho = 0, kendall_tau = 0, mean_absolute_error = 0,
                 root_mean_squared_error = 0, cohen_kappa = 0, sample_size = length rows\<rparr>,
              dimension_correlations = [],
              calibration_needed = True,
              recommendations =
                [''Insufficient data for meta-evaluation. Need at least 10 human annotations.''],
              last_calculated = utcnow lib\<rparr>"
  by (simp add: calculate_metrics_def get_score_pairs_def zero_metrics_def insufficient_line_def)

theorem insufficient_data_report_witness:
  "length three_rows < 10
   \<and> calculate_metrics failing_stats three_rows
       = Inr \<lparr>overall_correlation =
                \<lparr>pearson_r = 0, spearman_rho = 0, kendall_tau = 0, mean_absolute_error = 0,
                 root_mean_squared_error = 0, cohen_kappa = 0, sample_size = 3\<rparr>,
              dimension_correlations = [],
              calibration_needed = True,
              recommendations =
                [''Insufficient data for meta-evaluation. Need at least 10 human annotations.''],
              last_calculated = 0\<rparr>"
proof -
  have l: "length three_rows < 10" by (simp add: three_rows_def)
  from insufficient_data_report [OF l, of failing_stats] l show ?thesis
    by (simp add: three_rows_def failing_stats_def)
qed

text \<open>
  Claim C7. With at least 10 pairs, in the report \<open>calculate_metrics\<close> returns,
  \<open>calibration_needed\<close> holds if and only if the overall Pearson r is below 0.80, or the
  overall mean absolute error exceeds 1.0, or some dimension's Pearson r is below 0.70. The
  recommendations are never empty; they contain the "CALIBRATION RECOMMENDED" line exactly
  when \<open>calibration_needed\<close> holds; and they consist of the acceptable-parameters message
  alone exactly when no other recommendation applies (at least 50 samples, r below 0.87,
  no calibration needed), the message appearing in no other case. (The metrics are real
  numbers here; a NaN correlation is not modelled.)
\<close>

theorem calibration_decision:
  assumes "10 \<le> length rows" and "calculate_metrics lib rows = Inr rep"
  shows "(calibration_needed rep \<longleftrightarrow>
            pearson_r (overall_correlation rep) < 80 / 100
            \<or> mean_absolute_error (overall_correlation rep) > 1
            \<or> (\<exists>km \<in> set (dimension_correlations rep). pearson_r (snd km) < 70 / 100))
         \<and> recommendations rep \<noteq> []
         \<and> (calibration_line \<in> set (recommendations rep) \<longleftrightarrow> calibration_needed rep)
         \<and> (recommendations rep = [acceptable_line] \<longleftrightarrow>
              50 \<le> sample_size (overall_correlation rep)
              \<and> pearson_r (overall_correlation rep) < 87 / 100
              \<and> \<not> calibration_needed rep)
         \<and> (acceptable_line \<in> set (recommendations rep) \<longrightarrow>
              recommendations rep = [acceptable_line])"
proof -
  let ?o = "overall_correlation rep" and ?d = "dimension_correlations rep"
  from calculate_metrics_long [OF assms]
  have cn: "calibration_needed rep = check_calibration_needed ?o ?d"
    and recs: "recommendations rep = generate_recommendations lib ?o ?d (calibration_needed rep)"
    by blast+
  have a: "calibration_needed rep \<longleftrightarrow>
            pearson_r ?o < 80 / 100 \<or> mean_absolute_error ?o > 1
            \<or> (\<exists>km \<in> set ?d. pearson_r (snd km) < 70 / 100)"
    by (simp only: cn check_calibration_needed_iff)
  have b: "recommendations rep \<noteq> []"
    by (subst recs) (rule recommendations_nonempty)
  have c: "calibration_line \<in> set (recommendations rep) \<longleftrightarrow> calibration_needed rep"
    by (subst recs) (rule calibration_line_iff)
  have d: "recommendations rep = [acceptable_line] \<longleftrightarrow>
              50 \<le> sample_size ?o \<and> pearson_r ?o < 87 / 100 \<and> \<not> calibration_needed rep"
  proof -
    have "recommendations rep = [acceptable_line] \<longleftrightarrow>
        50 \<le> sample_size ?o \<and> 80 / 100 \<le> pearson_r ?o \<and> pearson_r ?o < 87 / 100
        \<and> mean_absolute_error ?o \<le> 15 / 10 \<and> weak_dimensions lib ?d = []
        \<and> \<not> calibration_needed rep"
      by (subst recs) (rule acceptable_only_iff)
    also have "\<dots> \<longleftrightarrow> 50 \<le> sample_size ?o \<and> pearson_r ?o < 87 / 100 \<and> \<not> calibration_needed rep"
      using a by (auto simp: weak_dimensions_empty_iff)
    finally show ?thesis .
  qed
  have e: "acceptable_line \<in> set (recommendations rep) \<longrightarrow>
              recommendations rep = [acceptable_line]"
    using acceptable_member [of lib ?o ?d "calibration_needed rep"] recs by simp
  from a b c d e show ?thesis by blast
qed

theorem calibration_decision_witness:
  "10 \<le> length ten_rows
   \<and> calculate_metrics agreeing_stats ten_rows = Inr ten_report
   \<and> \<not> calibration_needed ten_report
   \<and> recommendations ten_report \<noteq> []
   \<and> calibration_line \<notin> set (recommendations ten_report)
   \<and> (\<exists>rep. calculate_metrics disagreeing_stats ten_rows = Inr rep
         \<and> calibration_needed rep
         \<and> calibration_line \<in> set (recommendations rep))"
proof -
  have l: "10 \<le> length ten_rows" by (simp add: ten_rows_def)
  have m: "calculate_metrics agreeing_stats ten_rows = Inr ten_report"
    by (simp add: calculate_metrics_def get_score_pairs_def ten_rows_def row0_def Let_def
        calculate_correlation_metrics_def agreeing_stats_def calculate_dimension_correlations_def
        check_calibration_needed_def generate_recommendations_def str_nat.simps digit_char_def
        ten_report_def)
  have r: "\<not> pearson_r (overall_correlation ten_report) < 80 / 100"
    "\<not> mean_absolute_error (overall_correlation ten_report) > 1"
    "\<not> (\<exists>km \<in> set (dimension_correlations ten_report). pearson_r (snd km) < 70 / 100)"
    by (simp_all add: ten_report_def)
  note t = calibration_decision [OF l m]
  from t r have a: "\<not> calibration_needed ten_report" by blast
  from t have b: "recommendations ten_report \<noteq> []" by blast
  from t a have c: "calibration_line \<notin> set (recommendations ten_report)" by blast
  obtain rep where rep: "calculate_metrics disagreeing_stats ten_rows = Inr rep"
    and low: "pearson_r (overall_correlation rep) = 1 / 2"
    by (simp add: calculate_metrics_def get_score_pairs_def ten_rows_def row0_def Let_def
        calculate_correlation_metrics_def disagreeing_stats_def
        calculate_dimension_correlations_def)
  note u = calibration_decision [OF l rep]
  from low have "pearson_r (overall_correlation rep) < 80 / 100" by simp
  with u have d: "calibration_needed rep" by blast
  with u have e: "calibration_line \<in> set (recommendations rep)" by blast
  from l m a b c rep d e show ?thesis by blast
qed

section \<open>Grammar enhancement\<close>















section \<open>The batch orchestrator\<close>

lemma count_list_update:
  "i < length xs \<Longrightarrow>
     count_list (xs[i := y]) z + (if xs ! i = z then 1 else 0)
       = count_list xs z + (if y = z then 1 else 0)"
proof (induction xs arbitrary: i)
  case Nil
  then show ?case by simp
next
  case (Cons x xs)
  show ?case
  proof (cases i)
    case 0
    then show ?thesis by simp
  next
    case (Suc j)
    with Cons.prems have "j < length xs" by simp
    from Cons.IH [OF this] Suc show ?thesis by (auto split: if_splits)
  qed
qed

lemma count_list_pos: "i < length xs \<Longrightarrow> xs ! i = z \<Longrightarrow> 0 < count_list xs z"
  by (metis count_list_0_iff neq0_conv nth_mem)

lemma count_list_zero_nth: "count_list xs z = 0 \<Longrightarrow> i < length xs \<Longrightarrow> xs ! i \<noteq> z"
  using count_list_pos by fastforce

lemma step_length: "batch_step body ev st = Some st' \<Longrightarrow> length (tasks st') = length (tasks st)"
  by (cases ev) (auto split: if_splits sum.splits)

lemma step_remaining:
  assumes "batch_step body ev st = Some st'"
  shows "remaining st' + 1 = remaining st"
proof (cases ev)
  case (Acquire i)
  with assms have i: "i < length (tasks st)" "tasks st ! i = Waiting"
    and st': "tasks st' = (tasks st)[i := Running]"
    by (auto split: if_splits)
  from count_list_update [OF i(1), of Running Waiting] i(2)
  have w: "count_list (tasks st') Waiting + 1 = count_list (tasks st) Waiting"
    by (simp add: st')
  from count_list_update [OF i(1), of Running Running] i(2)
  have r: "count_list (tasks st') Running = count_list (tasks st) Running + 1"
    by (simp add: st')
  from w r show ?thesis by (simp add: remaining_def)
next
  case (Finish i)
  with assms obtain out where i: "i < length (tasks st)" "tasks st ! i = Running"
    and st': "tasks st' = (tasks st)[i := Done out]"
    by (auto split: if_splits sum.splits)
  from count_list_update [OF i(1), of "Done out" Waiting] i(2)
  have w: "count_list (tasks st') Waiting = count_list (tasks st) Waiting"
    by (simp add: st')
  from count_list_update [OF i(1), of "Done out" Running] i(2)
  have r: "count_list (tasks st') Running + 1 = count_list (tasks st) Running"
    by (simp add: st')
  from w r show ?thesis by (simp add: remaining_def)
qed

lemma step_inv:
  assumes "batch_step body ev st = Some st'" and "batch_inv body c st"
  shows "batch_inv body c st'"
proof (cases ev)
  case (Acquire i)
  with assms(1) have i: "i < length (tasks st)" "tasks st ! i = Waiting" "0 < permits st"
    and st': "st' = st\<lparr>permits := permits st - 1, tasks := (tasks st)[i := Running]\<rparr>"
    by (auto split: if_splits)
  from count_list_update [OF i(1), of Running Running] i(2)
  have r: "count_list ((tasks st)[i := Running]) Running = count_list (tasks st) Running + 1"
    by simp
  from assms(2) i r show ?thesis
    unfolding batch_inv_def st' by (auto simp: nth_list_update)
next
  case (Finish i)
  with assms(1) have i: "i < length (tasks st)" "tasks st ! i = Running"
    by (auto split: if_splits)
  from count_list_update [OF i(1), of "Done (body i)" Running] i(2)
  have r: "count_list ((tasks st)[i := Done (body i)]) Running + 1 = count_list (tasks st) Running"
    by simp
  show ?thesis
  proof (cases "body i")
    case (Inr res)
    with assms(1) Finish i have st': "st' = st\<lparr>permits := permits st + 1,
                         tasks := (tasks st)[i := Done (Inr res)],
                         completed := completed st + 1,
                         progress := progress st @ [(completed st + 1, length (tasks st))]\<rparr>"
      by simp
    from assms(2) i r Inr show ?thesis
      unfolding batch_inv_def st' by (auto simp: nth_list_update)
  next
    case (Inl e)
    with assms(1) Finish i have st': "st' = st\<lparr>permits := permits st + 1,
                         tasks := (tasks st)[i := Done (Inl e)],
                         raised := (case raised st of None \<Rightarrow> Some e | Some e0 \<Rightarrow> Some e0)\<rparr>"
      by simp
    from assms(2) i r Inl show ?thesis
      unfolding batch_inv_def st' by (auto simp: nth_list_update split: option.splits)
  qed
qed

lemma run_length: "run_events body evs st = Some st' \<Longrightarrow> length (tasks st') = length (tasks st)"
proof (induction evs arbitrary: st)
  case Nil
  then show ?case by simp
next
  case (Cons ev evs)
  from Cons.prems obtain st1 where s: "batch_step body ev st = Some st1"
    and r: "run_events body evs st1 = Some st'"
    by (auto split: option.splits)
  from Cons.IH [OF r] step_length [OF s] show ?case by simp
qed

lemma run_remaining: "run_events body evs st = Some st' \<Longrightarrow> remaining st' + length evs = remaining st"
proof (induction evs arbitrary: st)
  case Nil
  then show ?case by simp
next
  case (Cons ev evs)
  from Cons.prems obtain st1 where s: "batch_step body ev st = Some st1"
    and r: "run_events body evs st1 = Some st'"
    by (auto split: option.splits)
  from Cons.IH [OF r] step_remaining [OF s] show ?case by simp
qed

lemma run_inv: "run_events body evs st = Some st' \<Longrightarrow> batch_inv body c st \<Longrightarrow> batch_inv body c st'"
proof (induction evs arbitrary: st)
  case Nil
  then show ?case by simp
next
  case (Cons ev evs)
  from Cons.prems(1) obtain st1 where s: "batch_step body ev st = Some st1"
    and r: "run_events body evs st1 = Some st'"
    by (auto split: option.splits)
  from Cons.IH [OF r step_inv [OF s Cons.prems(2)]] show ?case .
qed

lemma run_append:
  "run_events body evs st = Some st1 \<Longrightarrow> run_events body evs' st1 = Some st2 \<Longrightarrow>
     run_events body (evs @ evs') st = Some st2"
  by (induction evs arbitrary: st) (auto split: option.splits)

lemma init_facts:
  assumes "batch_init concurrency n = Inr st0"
  shows "length (tasks st0) = n" and "remaining st0 = 2 * n"
    and "batch_inv body (nat concurrency) st0" and "raised st0 = None" and "0 \<le> concurrency"
proof -
  from assms have st0: "st0 = \<lparr>permits = nat concurrency, tasks = replicate n Waiting, completed = 0,
                progress = [], raised = None\<rparr>" and c: "0 \<le> concurrency"
    by (auto simp: batch_init_def split: if_splits)
  have cw: "count_list (replicate n Waiting) Waiting = n" by (induction n) simp_all
  have cr: "count_list (replicate n Waiting) Running = 0" by (induction n) simp_all
  show "length (tasks st0) = n" by (simp add: st0)
  show "remaining st0 = 2 * n" by (simp add: st0 remaining_def cw cr)
  show "batch_inv body (nat concurrency) st0" by (simp add: st0 batch_inv_def cr)
  show "raised st0 = None" by (simp add: st0)
  show "0 \<le> concurrency" by (rule c)
qed

lemma collect_Some:
  "collect ts = Some rs \<Longrightarrow>
     length rs = length ts \<and> (\<forall>i < length ts. ts ! i = Done (Inr (rs ! i)))"
proof (induction ts arbitrary: rs rule: collect.induct)
  case 1
  then show ?case by simp
next
  case (2 r ts)
  from "2.prems" obtain rs' where rs': "collect ts = Some rs'" and rs: "rs = r # rs'"
    by auto
  from "2.IH" [OF rs'] rs show ?case by (auto simp: nth_Cons split: nat.splits)
qed simp_all

lemma collect_None:
  "collect ts = None \<Longrightarrow> \<exists>i < length ts. \<forall>r. ts ! i \<noteq> Done (Inr r)"
proof (induction ts rule: collect.induct)
  case 1
  then show ?case by simp
next
  case (2 r ts)
  then have "collect ts = None" by simp
  from "2.IH" [OF this] obtain i where "i < length ts" "\<forall>r. ts ! i \<noteq> Done (Inr r)" by blast
  then have "Suc i < length (Done (Inr r) # ts) \<and> (\<forall>r'. (Done (Inr r) # ts) ! Suc i \<noteq> Done (Inr r'))"
    by simp
  then show ?case by blast
qed (fastforce)+

lemma gather_results:
  assumes "gather st = Some (Inr rs)" and "batch_inv body c st"
  shows "length rs = length (tasks st) \<and> (\<forall>i < length (tasks st). body i = Inr (rs ! i))"
proof -
  from assms(1) have c: "collect (tasks st) = Some rs"
    by (auto simp: gather_def split: option.splits)
  from collect_Some [OF c] have l: "length rs = length (tasks st)"
    and d: "\<forall>i < length (tasks st). tasks st ! i = Done (Inr (rs ! i))" by blast+
  from assms(2) have "\<forall>i < length (tasks st). \<forall>out. tasks st ! i = Done out \<longrightarrow> out = body i"
    by (simp add: batch_inv_def)
  with d have "\<forall>i < length (tasks st). body i = Inr (rs ! i)" by metis
  with l show ?thesis by blast
qed

lemma not_done_cases:
  assumes "i < length ts" and "\<forall>r. ts ! i \<noteq> Done (Inr r)"
    and "\<forall>j < length ts. \<forall>e. ts ! j \<noteq> Done (Inl e)"
  shows "ts ! i = Waiting \<or> ts ! i = Running"
proof (cases "ts ! i")
  case (Done out)
  with assms show ?thesis by (cases out) auto
qed simp_all

lemma pending_enabled:
  assumes inv: "batch_inv body c st" and c: "0 < c" and pending: "gather st = None"
  shows "\<exists>ev st'. batch_step body ev st = Some st'"
proof -
  from pending have r: "raised st = None" and col: "collect (tasks st) = None"
    by (auto simp: gather_def split: option.splits)
  from collect_None [OF col] obtain i where i: "i < length (tasks st)"
    and nd: "\<forall>r. tasks st ! i \<noteq> Done (Inr r)" by blast
  from inv r have noerr: "\<forall>j < length (tasks st). \<forall>e. tasks st ! j \<noteq> Done (Inl e)"
    by (simp add: batch_inv_def)
  show ?thesis
  proof (cases "count_list (tasks st) Running = 0")
    case True
    with inv c have p: "0 < permits st" by (simp add: batch_inv_def)
    from True i have "tasks st ! i \<noteq> Running" by (rule count_list_zero_nth)
    with not_done_cases [OF i nd noerr] have "tasks st ! i = Waiting" by simp
    with i p have "batch_step body (Acquire i) st
        = Some (st\<lparr>permits := permits st - 1, tasks := (tasks st)[i := Running]\<rparr>)"
      by simp
    then show ?thesis by blast
  next
    case False
    then have "Running \<in> set (tasks st)" by (simp add: count_list_0_iff)
    then obtain j where j: "j < length (tasks st)" "tasks st ! j = Running"
      by (auto simp: in_set_conv_nth)
    then have "\<exists>st'. batch_step body (Finish j) st = Some st'"
      by (cases "body j") simp_all
    then show ?thesis by blast
  qed
qed

lemma step_no_raise:
  assumes "batch_step body ev st = Some st'" and "raised st = None"
    and "\<forall>i < length (tasks st). \<exists>r. body i = Inr r"
  shows "raised st' = None"
  using assms by (cases ev) (auto split: if_splits sum.splits)

lemma run_no_raise:
  "run_events body evs st = Some st' \<Longrightarrow> raised st = None \<Longrightarrow>
     \<forall>i < length (tasks st). \<exists>r. body i = Inr r \<Longrightarrow> raised st' = None"
proof (induction evs arbitrary: st)
  case Nil
  then show ?case by simp
next
  case (Cons ev evs)
  from Cons.prems(1) obtain st1 where s: "batch_step body ev st = Some st1"
    and r: "run_events body evs st1 = Some st'"
    by (auto split: option.splits)
  from step_no_raise [OF s Cons.prems(2,3)] have n: "raised st1 = None" .
  from step_length [OF s] Cons.prems(3) have "\<forall>i < length (tasks st1). \<exists>r. body i = Inr r" by simp
  from Cons.IH [OF r n this] show ?case .
qed

lemma completes:
  assumes "batch_inv body c st" and "0 < c"
  shows "\<exists>evs st'. run_events body evs st = Some st' \<and> gather st' \<noteq> None"
  using assms
proof (induction "remaining st" arbitrary: st rule: less_induct)
  case less
  show ?case
  proof (cases "gather st")
    case (Some out)
    then have "run_events body [] st = Some st \<and> gather st \<noteq> None" by simp
    then show ?thesis by blast
  next
    case None
    from pending_enabled [OF less.prems None] obtain ev st1 where
      s: "batch_step body ev st = Some st1" by blast
    from step_remaining [OF s] have "remaining st1 < remaining st" by simp
    from less.hyps [OF this step_inv [OF s less.prems(1)] less.prems(2)]
    obtain evs st' where r: "run_events body evs st1 = Some st'" and g: "gather st' \<noteq> None"
      by blast
    from s r have "run_events body (ev # evs) st = Some st'" by simp
    with g show ?thesis by blast
  qed
qed

lemma collect_all_done:
  "collect ts = Some rs \<Longrightarrow> count_list ts Waiting = 0 \<and> count_list ts Running = 0"
proof (induction ts arbitrary: rs rule: collect.induct)
  case 1
  then show ?case by simp
next
  case (2 r ts)
  then obtain rs' where "collect ts = Some rs'" by auto
  from "2.IH" [OF this] show ?case by simp
qed simp_all

lemma echo_eval:
  "evaluate echo_env default_engine conv1 True True = Inr (echo_result ''CONV-001'' ''examples'')"
  "evaluate echo_env default_engine conv2 False True = Inr (echo_result ''CONV-002'' ''plain'')"
  by (simp_all add: evaluate_def echo_env_def default_engine_def default_config_def
      fixed_system_prompt_def fixed_user_prompt_def call_llm_def echo_llm_def parse_response_def
      extract_json_def reject_all_def strip_def is_space_def conv1_def conv2_def echo_result_def
      zero_elapsed_def DEFAULT_RUBRIC_def)

lemma echo_batch:
  "evaluate_batch echo_env default_engine [conv1, conv2] True True 5
       [Acquire 1, Acquire 0, Finish 1, Finish 0]
     = Some (Inr [echo_result ''CONV-001'' ''examples'', echo_result ''CONV-002'' ''plain''])"
  by (simp add: evaluate_batch_def batch_init_def task_body_def echo_eval gather_def)

text \<open>
  Claim C5. Whatever the order in which the tasks acquire the semaphore and finish, a
  list that \<open>evaluate_batch\<close> returns for \<open>N\<close> conversations has exactly \<open>N\<close> results, and
  the result at position \<open>i\<close> is what \<open>evaluate\<close> returns for the conversation at position
  \<open>i\<close> with \<open>include_few_shot\<close> as the caller passed it at \<open>i = 0\<close> and \<open>False\<close> at every
  other position. With a positive \<open>concurrency\<close>, and every per-item \<open>evaluate\<close> returning,
  the batch does return such a list: some execution ends with one, no execution is longer
  than \<open>2 N\<close> events, an execution that has not returned can always take a further event,
  and one that has returned took exactly \<open>2 N\<close> events.
\<close>

theorem evaluate_batch_aligned:
  "(\<forall>schedule results.
      evaluate_batch env eng convs fs cal concurrency schedule = Some (Inr results) \<longrightarrow>
        length results = length convs
        \<and> (\<forall>i < length convs.
              evaluate env eng (convs ! i) (fs \<and> i = 0) cal = Inr (results ! i))
        \<and> (\<forall>i < length convs. 0 < i \<longrightarrow>
              evaluate env eng (convs ! i) False cal = Inr (results ! i)))
   \<and> (0 < concurrency
       \<and> (\<forall>i < length convs. \<exists>r. evaluate env eng (convs ! i) (fs \<and> i = 0) cal = Inr r) \<longrightarrow>
        (\<exists>schedule results.
           evaluate_batch env eng convs fs cal concurrency schedule = Some (Inr results))
        \<and> (\<forall>schedule st.
              batch_after env eng convs fs cal concurrency schedule = Some st \<longrightarrow>
                length schedule \<le> 2 * length convs
                \<and> (gather st = None \<longrightarrow>
                     (\<exists>ev st'. batch_step (task_body env eng convs fs cal) ev st = Some st'))
                \<and> (gather st \<noteq> None \<longrightarrow> length schedule = 2 * length convs)))"
proof (intro conjI allI impI)
  let ?body = "task_body env eng convs fs cal"
  {
    fix schedule results
    assume a: "evaluate_batch env eng convs fs cal concurrency schedule = Some (Inr results)"
    then obtain st0 st where i: "batch_init concurrency (length convs) = Inr st0"
      and r: "run_events ?body schedule st0 = Some st" and g: "gather st = Some (Inr results)"
      by (auto simp: evaluate_batch_def split: sum.splits option.splits)
    from run_inv [OF r init_facts(3) [OF i]] have inv: "batch_inv ?body (nat concurrency) st" .
    from run_length [OF r] init_facts(1) [OF i] have l: "length (tasks st) = length convs" by simp
    from gather_results [OF g inv] l
    have len: "length results = length convs"
      and res: "\<forall>i < length convs. ?body i = Inr (results ! i)" by simp_all
    show "length results = length convs" by (rule len)
    show "\<And>i. i < length convs \<Longrightarrow>
        evaluate env eng (convs ! i) (fs \<and> i = 0) cal = Inr (results ! i)"
      using res by (simp add: task_body_def)
    show "\<And>i. i < length convs \<Longrightarrow> 0 < i \<Longrightarrow>
        evaluate env eng (convs ! i) False cal = Inr (results ! i)"
      using res by (auto simp: task_body_def)
  }
  assume h: "0 < concurrency
       \<and> (\<forall>i < length convs. \<exists>r. evaluate env eng (convs ! i) (fs \<and> i = 0) cal = Inr r)"
  then have c: "0 < concurrency" and ret: "\<forall>i < length convs. \<exists>r. ?body i = Inr r"
    by (simp_all add: task_body_def)
  from c obtain st0 where i: "batch_init concurrency (length convs) = Inr st0"
    by (auto simp: batch_init_def)
  note f = init_facts [OF i]
  from c have pc: "0 < nat concurrency" by simp
  have ret0: "\<forall>i < length (tasks st0). \<exists>r. ?body i = Inr r" using ret f(1) by simp
  show "\<exists>schedule results.
           evaluate_batch env eng convs fs cal concurrency schedule = Some (Inr results)"
  proof -
    from completes [OF f(3) pc] obtain evs st where r: "run_events ?body evs st0 = Some st"
      and g: "gather st \<noteq> None" by blast
    from run_no_raise [OF r f(4) ret0] have "raised st = None" .
    with g obtain rs where "gather st = Some (Inr rs)"
      by (auto simp: gather_def split: option.splits)
    with i r have "evaluate_batch env eng convs fs cal concurrency evs = Some (Inr rs)"
      by (simp add: evaluate_batch_def)
    then show ?thesis by blast
  qed
  {
    fix schedule st
    assume b: "batch_after env eng convs fs cal concurrency schedule = Some st"
    with i have r: "run_events ?body schedule st0 = Some st"
      by (simp add: batch_after_def)
    from run_remaining [OF r] f(2) have rem: "remaining st + length schedule = 2 * length convs"
      by simp
    from run_inv [OF r f(3)] have inv: "batch_inv ?body (nat concurrency) st" .
    show "length schedule \<le> 2 * length convs" using rem by simp
    show "gather st = None \<Longrightarrow> \<exists>ev st'. batch_step ?body ev st = Some st'"
      using pending_enabled [OF inv pc] by blast
    show "gather st \<noteq> None \<Longrightarrow> length schedule = 2 * length convs"
    proof -
      assume g: "gather st \<noteq> None"
      from run_no_raise [OF r f(4) ret0] have "raised st = None" .
      with g obtain rs where "collect (tasks st) = Some rs"
        by (auto simp: gather_def split: option.splits)
      from collect_all_done [OF this] have "remaining st = 0" by (simp add: remaining_def)
      with rem show ?thesis by simp
    qed
  }
qed

theorem evaluate_batch_aligned_witness:
  "evaluate_batch echo_env default_engine [conv1, conv2] True True 5
       [Acquire 1, Acquire 0, Finish 1, Finish 0]
     = Some (Inr [echo_result ''CONV-001'' ''examples'', echo_result ''CONV-002'' ''plain''])
   \<and> evaluate echo_env default_engine conv1 True True
       = Inr (echo_result ''CONV-001'' ''examples'')
   \<and> evaluate echo_env default_engine conv2 False True
       = Inr (echo_result ''CONV-002'' ''plain'')
   \<and> (\<exists>schedule results.
         evaluate_batch echo_env default_engine [conv1, conv2] True True 5 schedule
           = Some (Inr results))"
proof -
  note t = evaluate_batch_aligned [where env = echo_env and eng = default_engine
      and convs = "[conv1, conv2]" and fs = True and cal = True and concurrency = 5]
  note s = t [THEN conjunct1, rule_format, OF echo_batch]
  have a: "evaluate echo_env default_engine conv1 True True
       = Inr (echo_result ''CONV-001'' ''examples'')"
    using s [THEN conjunct2, THEN conjunct1, rule_format, of 0] by simp
  have b: "evaluate echo_env default_engine conv2 False True
       = Inr (echo_result ''CONV-002'' ''plain'')"
    using s [THEN conjunct2, THEN conjunct2, rule_format, of 1] by simp
  have ret: "\<forall>i < length [conv1, conv2].
      \<exists>r. evaluate echo_env default_engine ([conv1, conv2] ! i) (True \<and> i = 0) True = Inr r"
  proof (intro allI impI)
    fix i :: nat
    assume "i < length [conv1, conv2]"
    then have "i = 0 \<or> i = 1" by auto
    then show "\<exists>r. evaluate echo_env default_engine ([conv1, conv2] ! i) (True \<and> i = 0) True = Inr r"
      using a b by auto
  qed
  have pos: "(0::int) < 5" by simp
  have c: "\<exists>schedule results.
         evaluate_batch echo_env default_engine [conv1, conv2] True True 5 schedule
           = Some (Inr results)"
    using t [THEN conjunct2, rule_format, OF conjI [OF pos ret], THEN conjunct1] .
  from echo_batch a b c show ?thesis by (intro conjI)
qed

end
